theory Spec2Isabelle
  imports Complex_Main "HOL-Library.AList" "HOL-Library.Multiset"
begin

section \<open>Python exceptions raised by the modelled code\<close>

text \<open>
  The module \<^verbatim>\<open>autografs.py\<close> defines no exception class of its own.  Every failure
  is a built-in exception raised by Python, NumPy or SciPy; each raise site that the
  modelled functions can reach is one constructor.
\<close>

datatype pyerror =
    KeyError \<comment> \<open>a dictionary subscript with a missing key\<close>
  | IndexError \<comment> \<open>\<^verbatim>\<open>random.choice\<close> on an empty sequence\<close>
  | TypeError \<comment> \<open>iterating over \<^verbatim>\<open>None\<close>\<close>
  | ValueError_broadcast \<comment> \<open>NumPy: operands could not be broadcast together\<close>
  | ValueError_nonfinite \<comment> \<open>SciPy: array must not contain infs or NaNs\<close>
  | ValueError_shapes \<comment> \<open>SciPy: the shapes of A and B differ\<close>
  | ValueError_argmin \<comment> \<open>NumPy: attempt to get argmin of an empty sequence\<close>
  | UnboundLocalError string \<comment> \<open>a local variable read before assignment\<close>

text \<open>Python's class hierarchy: \<^verbatim>\<open>UnboundLocalError\<close> is a subclass of \<^verbatim>\<open>NameError\<close>.\<close>

fun is_NameError :: "pyerror \<Rightarrow> bool" where
  "is_NameError (UnboundLocalError v) = True"
| "is_NameError e = False"

fun is_ValueError :: "pyerror \<Rightarrow> bool" where
  "is_ValueError ValueError_broadcast = True"
| "is_ValueError ValueError_nonfinite = True"
| "is_ValueError ValueError_shapes = True"
| "is_ValueError ValueError_argmin = True"
| "is_ValueError e = False"

section \<open>NumPy floating-point values\<close>

text \<open>
  A NumPy float is modelled as an exact real number or one of the three IEEE special
  values.  Rounding and overflow of finite values are not modelled; what is modelled is
  where infinities and NaN come from (division by zero, \<open>0/0\<close>, the mean of an empty
  array) and how they propagate, since NumPy carries out these operations with a warning
  and without raising.  There is one zero: every divisor that can be zero in
  \<^verbatim>\<open>align\<close> is a norm or a count, that is \<open>+0.0\<close>.
\<close>

datatype npf = Fin real | PInf | NInf | NaN

fun is_finite :: "npf \<Rightarrow> bool" where
  "is_finite (Fin x) = True"
| "is_finite y = False"

fun fneg :: "npf \<Rightarrow> npf" where
  "fneg (Fin x) = Fin (- x)"
| "fneg PInf = NInf"
| "fneg NInf = PInf"
| "fneg NaN = NaN"

fun fadd :: "npf \<Rightarrow> npf \<Rightarrow> npf" where
  "fadd (Fin x) (Fin y) = Fin (x + y)"
| "fadd NaN y = NaN"
| "fadd x NaN = NaN"
| "fadd PInf NInf = NaN"
| "fadd NInf PInf = NaN"
| "fadd PInf y = PInf"
| "fadd x PInf = PInf"
| "fadd NInf y = NInf"
| "fadd x NInf = NInf"

definition fsub :: "npf \<Rightarrow> npf \<Rightarrow> npf" where
  "fsub x y = fadd x (fneg y)"

text \<open>The sign of an infinity times a finite factor; zero times infinity is NaN.\<close>

definition signed_inf :: "real \<Rightarrow> npf" where
  "signed_inf s = (if s = 0 then NaN else if 0 < s then PInf else NInf)"

fun fmul :: "npf \<Rightarrow> npf \<Rightarrow> npf" where
  "fmul (Fin x) (Fin y) = Fin (x * y)"
| "fmul NaN y = NaN"
| "fmul x NaN = NaN"
| "fmul PInf (Fin y) = signed_inf y"
| "fmul NInf (Fin y) = signed_inf (- y)"
| "fmul (Fin x) PInf = signed_inf x"
| "fmul (Fin x) NInf = signed_inf (- x)"
| "fmul PInf PInf = PInf"
| "fmul NInf NInf = PInf"
| "fmul PInf NInf = NInf"
| "fmul NInf PInf = NInf"

fun fdiv :: "npf \<Rightarrow> npf \<Rightarrow> npf" where
  "fdiv (Fin x) (Fin y) = (if y = 0 then signed_inf x else Fin (x / y))"
| "fdiv NaN y = NaN"
| "fdiv x NaN = NaN"
| "fdiv (Fin x) PInf = Fin 0"
| "fdiv (Fin x) NInf = Fin 0"
| "fdiv PInf (Fin y) = (if 0 \<le> y then PInf else NInf)"
| "fdiv NInf (Fin y) = (if 0 \<le> y then NInf else PInf)"
| "fdiv PInf PInf = NaN"
| "fdiv PInf NInf = NaN"
| "fdiv NInf PInf = NaN"
| "fdiv NInf NInf = NaN"

fun fsqrt :: "npf \<Rightarrow> npf" where
  "fsqrt (Fin x) = (if 0 \<le> x then Fin (sqrt x) else NaN)"
| "fsqrt PInf = PInf"
| "fsqrt NInf = NaN"
| "fsqrt NaN = NaN"

text \<open>The comparison \<^verbatim>\<open>x < y\<close>: false whenever an operand is NaN.\<close>

fun fless :: "npf \<Rightarrow> npf \<Rightarrow> bool" where
  "fless (Fin x) (Fin y) = (x < y)"
| "fless NaN y = False"
| "fless x NaN = False"
| "fless x NInf = False"
| "fless PInf y = False"
| "fless NInf y = True"
| "fless x PInf = True"

text \<open>\<^verbatim>\<open>numpy.sum\<close> of a one-dimensional array; the sum of no element is \<open>0.0\<close>.\<close>

definition fsum :: "npf list \<Rightarrow> npf" where
  "fsum xs = foldl fadd (Fin 0) xs"

text \<open>\<^verbatim>\<open>numpy.mean\<close> of a one-dimensional array: the sum divided by the count.  For an
  empty array this is \<open>0.0/0\<close>, that is NaN (NumPy warns and returns it).\<close>

definition np_mean :: "npf list \<Rightarrow> npf" where
  "np_mean xs = fdiv (fsum xs) (Fin (real (length xs)))"

section \<open>Vectors and matrices of shape (3,) and (3,3)\<close>

type_synonym vec3 = "npf \<times> npf \<times> npf"
type_synonym mat3 = "vec3 \<times> vec3 \<times> vec3"

fun vx :: "vec3 \<Rightarrow> npf" where "vx (a, b, c) = a"
fun vy :: "vec3 \<Rightarrow> npf" where "vy (a, b, c) = b"
fun vz :: "vec3 \<Rightarrow> npf" where "vz (a, b, c) = c"

fun vadd :: "vec3 \<Rightarrow> vec3 \<Rightarrow> vec3" where
  "vadd (a, b, c) (x, y, z) = (fadd a x, fadd b y, fadd c z)"

fun vsub :: "vec3 \<Rightarrow> vec3 \<Rightarrow> vec3" where
  "vsub (a, b, c) (x, y, z) = (fsub a x, fsub b y, fsub c z)"

text \<open>A scalar times an array, and an array divided by a scalar (broadcasting).\<close>

fun smul :: "npf \<Rightarrow> vec3 \<Rightarrow> vec3" where
  "smul s (x, y, z) = (fmul s x, fmul s y, fmul s z)"

fun vdivs :: "vec3 \<Rightarrow> npf \<Rightarrow> vec3" where
  "vdivs (x, y, z) s = (fdiv x s, fdiv y s, fdiv z s)"

text \<open>\<^verbatim>\<open>numpy.linalg.norm\<close> of one row: the square root of the sum of squares.\<close>

fun norm3 :: "vec3 \<Rightarrow> npf" where
  "norm3 (x, y, z) = fsqrt (fadd (fadd (fmul x x) (fmul y y)) (fmul z z))"

text \<open>\<^verbatim>\<open>positions.mean(axis=0)\<close> for an array of shape (n,3).\<close>

definition mean_axis0 :: "vec3 list \<Rightarrow> vec3" where
  "mean_axis0 ps = (np_mean (map vx ps), np_mean (map vy ps), np_mean (map vz ps))"

text \<open>\<^verbatim>\<open>numpy.ones(3)\<close>.\<close>

definition ones3 :: vec3 where
  "ones3 = (Fin 1, Fin 1, Fin 1)"

text \<open>\<^verbatim>\<open>numpy.eye(3) * alpha\<close>: the vector is broadcast along the rows, so entry
  \<open>(i, j)\<close> is \<open>eye[i, j] * alpha[j]\<close>.\<close>

fun eye_times :: "vec3 \<Rightarrow> mat3" where
  "eye_times (a, b, c) =
     ((fmul (Fin 1) a, fmul (Fin 0) b, fmul (Fin 0) c),
      (fmul (Fin 0) a, fmul (Fin 1) b, fmul (Fin 0) c),
      (fmul (Fin 0) a, fmul (Fin 0) b, fmul (Fin 1) c))"

text \<open>One row of \<^verbatim>\<open>positions.dot(M)\<close>: a row vector times a (3,3) matrix.\<close>

fun vecmat :: "vec3 \<Rightarrow> mat3 \<Rightarrow> vec3" where
  "vecmat (x, y, z) ((a, b, c), (d, e, f), (g, h, i)) =
     (fadd (fadd (fmul x a) (fmul y d)) (fmul z g),
      fadd (fadd (fmul x b) (fmul y e)) (fmul z h),
      fadd (fadd (fmul x c) (fmul y f)) (fmul z i))"

fun transpose3 :: "mat3 \<Rightarrow> mat3" where
  "transpose3 ((a, b, c), (d, e, f), (g, h, i)) = ((a, d, g), (b, e, h), (c, f, i))"

text \<open>\<^verbatim>\<open>u.dot(vt)\<close> for two (3,3) matrices: every row of \<open>u\<close> times \<open>vt\<close>.\<close>

fun matmul :: "mat3 \<Rightarrow> mat3 \<Rightarrow> mat3" where
  "matmul (r1, r2, r3) m = (vecmat r1 m, vecmat r2 m, vecmat r3 m)"

section \<open>ASE Atoms objects\<close>

text \<open>
  An \<^verbatim>\<open>ase.Atoms\<close> object holds per-atom arrays of one length (symbols, positions of
  shape (n,3), tags) and the dictionary \<^verbatim>\<open>info\<close>.  The arrays are modelled as one list
  of atoms, so their lengths agree by construction.  Of \<^verbatim>\<open>info\<close> the code reads only
  the keys \<^verbatim>\<open>"mmtypes"\<close> and \<^verbatim>\<open>"bonds"\<close>; an absent key is \<open>None\<close>.
\<close>

type_synonym mmtypes = "string list"
type_synonym bonds = "nat list list"

record atom =
  symbol :: string
  position :: vec3
  atom_tag :: int

record atoms =
  atom_list :: "atom list"
  info_mmtypes :: "mmtypes option"
  info_bonds :: "bonds option"

definition positions :: "atoms \<Rightarrow> vec3 list" where
  "positions a = map position (atom_list a)"

text \<open>An update of every row of \<^verbatim>\<open>positions\<close> (\<^verbatim>\<open>positions -= c\<close>,
  \<^verbatim>\<open>positions = positions.dot(M)\<close>): symbols, tags and \<^verbatim>\<open>info\<close> stay.\<close>

definition map_positions :: "(vec3 \<Rightarrow> vec3) \<Rightarrow> atoms \<Rightarrow> atoms" where
  "map_positions f a = a\<lparr>atom_list := map (\<lambda>x. x\<lparr>position := f (position x)\<rparr>) (atom_list a)\<rparr>"

text \<open>\<^verbatim>\<open>atoms[indices]\<close>: a new object with the atoms at the given indices.\<close>

definition getitem :: "atoms \<Rightarrow> nat list \<Rightarrow> atoms" where
  "getitem a idx = a\<lparr>atom_list := map (\<lambda>i. atom_list a ! i) idx\<rparr>"

section \<open>NumPy and SciPy operations used by the aligner\<close>

text \<open>\<^verbatim>\<open>x / y\<close> for two one-dimensional arrays.  Shapes \<open>(n,)\<close> and \<open>(m,)\<close> broadcast
  when they are equal or one of them is 1; otherwise NumPy raises \<^verbatim>\<open>ValueError\<close>.
  A division by zero raises nothing: the quotient is an infinity or NaN.\<close>

definition np_divide :: "npf list \<Rightarrow> npf list \<Rightarrow> pyerror + npf list" where
  "np_divide xs ys =
     (if length xs = length ys then Inr (map (\<lambda>(x, y). fdiv x y) (zip xs ys))
      else if length xs = 1 then Inr (map (\<lambda>y. fdiv (hd xs) y) ys)
      else if length ys = 1 then Inr (map (\<lambda>x. fdiv x (hd ys)) xs)
      else Inl ValueError_broadcast)"

text \<open>\<^verbatim>\<open>numpy.argmin\<close> of a one-dimensional array: the scan keeps the first smallest
  element, and stops at the first NaN, which counts as the minimum.  The arguments of
  \<open>argmin_scan\<close> are the rest of the array, its index, and the best index and value
  so far.\<close>

fun argmin_scan :: "npf list \<Rightarrow> nat \<Rightarrow> nat \<Rightarrow> npf \<Rightarrow> nat" where
  "argmin_scan [] i mi mp = mi"
| "argmin_scan (d # ds) i mi mp =
     (if mp = NaN then mi
      else if d = NaN \<or> fless d mp then argmin_scan ds (Suc i) i d
      else argmin_scan ds (Suc i) mi mp)"

definition np_argmin :: "npf list \<Rightarrow> pyerror + nat" where
  "np_argmin ds = (case ds of [] \<Rightarrow> Inl ValueError_argmin | d # rest \<Rightarrow> Inr (argmin_scan rest 1 0 d))"

definition finite_vec :: "vec3 \<Rightarrow> bool" where
  "finite_vec v = (is_finite (vx v) \<and> is_finite (vy v) \<and> is_finite (vz v))"

text \<open>\<^verbatim>\<open>B.T.dot(A)\<close> for two arrays of shape (n,3): entry \<open>(i, j)\<close> is the sum over the
  rows \<open>r\<close> of \<open>B[r, i] * A[r, j]\<close>.\<close>

definition col_dot :: "(vec3 \<Rightarrow> npf) \<Rightarrow> (vec3 \<Rightarrow> npf) \<Rightarrow> vec3 list \<Rightarrow> vec3 list \<Rightarrow> npf" where
  "col_dot f g B A = fsum (map (\<lambda>(b, a). fmul (f b) (g a)) (zip B A))"

definition dot_T :: "vec3 list \<Rightarrow> vec3 list \<Rightarrow> mat3" where
  "dot_T B A =
     ((col_dot vx vx B A, col_dot vx vy B A, col_dot vx vz B A),
      (col_dot vy vx B A, col_dot vy vy B A, col_dot vy vz B A),
      (col_dot vz vx B A, col_dot vz vy B A, col_dot vz vz B A))"

text \<open>
  \<^verbatim>\<open>scipy.linalg.orthogonal_procrustes(A, B)\<close> (with its default
  \<^verbatim>\<open>check_finite=True\<close>): both arrays are checked for infinities and NaN, then their
  shapes are compared, then \<^verbatim>\<open>u, w, vt = svd(B.T.dot(A).T)\<close> and the results are
  \<^verbatim>\<open>R = u.dot(vt)\<close> and \<^verbatim>\<open>w.sum()\<close>.  The singular value decomposition is LAPACK's;
  it is the parameter \<open>svd\<close>.
\<close>

type_synonym svd_fn = "mat3 \<Rightarrow> mat3 \<times> vec3 \<times> mat3"

definition orthogonal_procrustes :: "svd_fn \<Rightarrow> vec3 list \<Rightarrow> vec3 list \<Rightarrow> pyerror + (mat3 \<times> npf)" where
  "orthogonal_procrustes svd A B =
     (if \<not> list_all finite_vec A then Inl ValueError_nonfinite
      else if \<not> list_all finite_vec B then Inl ValueError_nonfinite
      else if length A \<noteq> length B then Inl ValueError_shapes
      else (case svd (transpose3 (dot_T B A)) of
              (u, w, vt) \<Rightarrow> Inr (matmul u vt, fsum [vx w, vy w, vz w])))"

section \<open>The aligner: \<^verbatim>\<open>Autografs.tag\<close> and \<^verbatim>\<open>Autografs.align\<close>\<close>

text \<open>
  \<^verbatim>\<open>tag\<close> walks over the atoms of the building unit.  An atom whose symbol is not
  \<^verbatim>\<open>"X"\<close> is skipped; for a dummy the distances to all fragment positions are
  computed, and the tag of the fragment atom at \<^verbatim>\<open>argmin\<close> is stored on the dummy.
\<close>

fun tag_atoms :: "atom list \<Rightarrow> atoms \<Rightarrow> pyerror + atom list" where
  "tag_atoms [] fragment = Inr []"
| "tag_atoms (a # rest) fragment =
     (if symbol a \<noteq> ''X'' then
        (case tag_atoms rest fragment of Inl e \<Rightarrow> Inl e | Inr r \<Rightarrow> Inr (a # r))
      else
        (let ps = position a;
             pf = positions fragment;
             d = map (\<lambda>p. norm3 (vsub p ps)) pf
         in case np_argmin d of
              Inl e \<Rightarrow> Inl e
            | Inr fi \<Rightarrow>
                (case tag_atoms rest fragment of
                   Inl e \<Rightarrow> Inl e
                 | Inr r \<Rightarrow> Inr (a\<lparr>atom_tag := atom_tag (atom_list fragment ! fi)\<rparr> # r))))"

definition tag :: "atoms \<Rightarrow> atoms \<Rightarrow> pyerror + atoms" where
  "tag sbu fragment =
     (case tag_atoms (atom_list sbu) fragment of
        Inl e \<Rightarrow> Inl e
      | Inr r \<Rightarrow> Inr (sbu\<lparr>atom_list := r\<rparr>))"

text \<open>
  The block of \<^verbatim>\<open>align\<close> under the comment \<^verbatim>\<open># get the scaling factor\<close>
  (lines 142 to 151), from the fragment's centre of positions before the translation,
  the dummies of the centred unit and the centred fragment.
\<close>

definition scaling_factor :: "vec3 \<Rightarrow> atoms \<Rightarrow> atoms \<Rightarrow> pyerror + vec3" where
  "scaling_factor fragment_cop sbu_X fragment =
     (let size_sbu = map norm3 (positions sbu_X);
          size_fragment = map norm3 (positions fragment)
      in case np_divide size_sbu size_fragment of
           Inl e \<Rightarrow> Inl e
         | Inr ratio \<Rightarrow>
             (let alpha = fmul (Fin 2) (np_mean ratio);
                  ncop = norm3 fragment_cop;
                  direction = (if fless ncop (Fin (1 / 10 ^ 6))
                               then vdivs ones3 (norm3 ones3)
                               else vdivs fragment_cop ncop)
              in Inr (smul alpha direction)))"

text \<open>
  \<^verbatim>\<open>align\<close>, statement by statement.  \<open>align_full\<close> also returns the matrix \<open>R\<close>
  that was applied to the unit; \<open>align\<close> returns what the method returns.
\<close>

definition align_full :: "svd_fn \<Rightarrow> atoms \<Rightarrow> atoms \<Rightarrow> pyerror + (atoms \<times> vec3 \<times> mat3)" where
  "align_full svd fragment0 sbu0 =
     (let fragment_cop = mean_axis0 (positions fragment0);
          fragment = map_positions (\<lambda>p. vsub p fragment_cop) fragment0;
          sbu_cop = mean_axis0 (positions sbu0);
          sbu = map_positions (\<lambda>p. vsub p sbu_cop) sbu0;
          sbu_Xis = filter (\<lambda>i. symbol (atom_list sbu ! i) = ''X'') [0 ..< length (atom_list sbu)];
          sbu_X = getitem sbu sbu_Xis
      in case scaling_factor fragment_cop sbu_X fragment of
           Inl e \<Rightarrow> Inl e
         | Inr alpha \<Rightarrow>
             (let fragment' = map_positions (\<lambda>p. vecmat p (eye_times alpha)) fragment;
                  X0 = positions sbu_X;
                  X1 = positions fragment'
              in case orthogonal_procrustes svd X0 X1 of
                   Inl e \<Rightarrow> Inl e
                 | Inr (R, s) \<Rightarrow>
                     (let sbu' = map_positions (\<lambda>p. vecmat p R) sbu
                      in case tag sbu' fragment' of
                           Inl e \<Rightarrow> Inl e
                         | Inr sbu'' \<Rightarrow> Inr (sbu'', alpha, R))))"

definition align :: "svd_fn \<Rightarrow> atoms \<Rightarrow> atoms \<Rightarrow> pyerror + (atoms \<times> vec3)" where
  "align svd fragment sbu =
     (case align_full svd fragment sbu of
        Inl e \<Rightarrow> Inl e
      | Inr (sbu', alpha, R) \<Rightarrow> Inr (sbu', alpha))"

section \<open>Listing the compatible building units\<close>

type_synonym shape = string

text \<open>
  \<^verbatim>\<open>list_available_sbu\<close> reads the two databases of the instance.  The entries are
  subscripted with the strings \<^verbatim>\<open>"Shapes"\<close> and \<^verbatim>\<open>"Shape"\<close>; what such a subscript
  returns is decided by the entry's class, which is outside this module, so the two
  lookups are parameters.  The function assigns \<^verbatim>\<open>shapes\<close> in its body, which makes
  the name local to the function; its frame starts with every local unbound.
\<close>

record sbu_frame =
  loc_shapes :: "shape list option"

fun keep_shape :: "(string \<Rightarrow> pyerror + shape) \<Rightarrow> shape \<Rightarrow> string list \<Rightarrow> pyerror + string list" where
  "keep_shape shape_item shape [] = Inr []"
| "keep_shape shape_item shape (sbuk # ks) =
     (case shape_item sbuk of
        Inl e \<Rightarrow> Inl e
      | Inr s \<Rightarrow>
          (case keep_shape shape_item shape ks of
             Inl e \<Rightarrow> Inl e
           | Inr r \<Rightarrow> Inr (if s = shape then sbuk # r else r)))"

definition list_available_sbu ::
  "(string \<Rightarrow> pyerror + shape list) \<Rightarrow> (string \<Rightarrow> pyerror + shape) \<Rightarrow> string list \<Rightarrow> string
     \<Rightarrow> pyerror + (shape \<times> string list) list" where
  "list_available_sbu shapes_item shape_item sbu_keys topology =
     (let frame = \<lparr>loc_shapes = None\<rparr> in
      case loc_shapes frame of
        None \<Rightarrow> Inl (UnboundLocalError ''shapes'')
      | Some shapes0 \<Rightarrow>
          (let sbu = fold (\<lambda>shape d. AList.update shape sbu_keys d) shapes0 [] in
           if topology \<noteq> [] then
             (case shapes_item topology of
                Inl e \<Rightarrow> Inl e
              | Inr shapes \<Rightarrow>
                  fold (\<lambda>shape acc.
                      case acc of
                        Inl e \<Rightarrow> Inl e
                      | Inr d \<Rightarrow>
                          (case map_of d shape of
                             None \<Rightarrow> Inl KeyError
                           | Some ks \<Rightarrow>
                               (case keep_shape shape_item shape ks of
                                  Inl e \<Rightarrow> Inl e
                                | Inr r \<Rightarrow> Inr (AList.update shape r d))))
                    shapes (Inr sbu))
           else Inr sbu))"

section \<open>The assembler: \<^verbatim>\<open>Autografs.get_sbu_dict\<close> and \<^verbatim>\<open>Autografs.make\<close>\<close>

text \<open>
  The classes \<^verbatim>\<open>Topology\<close>, \<^verbatim>\<open>SBU\<close> and \<^verbatim>\<open>Framework\<close> and the function
  \<^verbatim>\<open>analyze_mm\<close> are imported by the module and defined elsewhere.  Objects of the
  first two classes are records of the attributes that \<^verbatim>\<open>make\<close> and
  \<^verbatim>\<open>get_sbu_dict\<close> read; a Python dictionary whose iteration order matters is an
  association list.
\<close>

record topology =
  topology_atoms :: atoms \<comment> \<open>\<^verbatim>\<open>get_atoms()\<close>\<close>
  fragments :: "nat \<rightharpoonup> atoms" \<comment> \<open>\<^verbatim>\<open>fragments[idx]\<close>\<close>
  shapes :: "(nat \<times> shape) list" \<comment> \<open>\<^verbatim>\<open>shapes.items()\<close>\<close>

record sbu_obj =
  sbu_name :: string
  sbu_atoms :: atoms \<comment> \<open>the attribute \<^verbatim>\<open>atoms\<close> and \<^verbatim>\<open>get_atoms()\<close>\<close>
  sbu_shape :: shape

text \<open>
  The constructors of the two classes, \<^verbatim>\<open>analyze_mm\<close>, LAPACK's decomposition and
  the random source are parameters of the model.  \<open>rand k\<close> is the number drawn by the
  \<open>k\<close>-th call of \<^verbatim>\<open>random.choice\<close>, which picks the element at that number modulo
  the length of the sequence.
\<close>

record env =
  lapack_svd :: svd_fn
  Topology :: "string \<Rightarrow> atoms \<Rightarrow> topology"
  SBU :: "string \<Rightarrow> atoms \<Rightarrow> sbu_obj"
  analyze_mm :: "atoms \<Rightarrow> bonds \<times> mmtypes"
  rand :: "nat \<Rightarrow> nat"

text \<open>The instance: the two databases read by the constructor of \<^verbatim>\<open>Autografs\<close>.\<close>

record autografs =
  self_topologies :: "string \<rightharpoonup> atoms" \<comment> \<open>\<^verbatim>\<open>self.topologies\<close>\<close>
  self_sbu :: "string \<rightharpoonup> atoms" \<comment> \<open>\<^verbatim>\<open>self.sbu\<close>\<close>

text \<open>The accumulator \<^verbatim>\<open>alpha\<close> of \<^verbatim>\<open>make\<close>: a Python float at first, an array of
  shape (3,) after the first addition.\<close>

datatype scale = Scalar npf | Vector vec3

text \<open>
  Modelled from the spec: the class \<^verbatim>\<open>Framework\<close> is not part of the module.  The
  spec describes it as the unit cell template inherited from the topology, the collection
  of aligned fragments indexed by slot, filled by one \<^verbatim>\<open>append\<close> per slot, and
  finalised once by the refinement, which receives the accumulated scale as its initial
  guess.  The optimisation itself is not modelled: \<open>refine\<close> records the seed.
\<close>

record 'u framework =
  fw_topology :: "atoms option"
  fw_SBU :: "(nat \<times> 'u \<times> mmtypes \<times> bonds) list"
  fw_alpha0 :: "scale option"

definition Framework :: "'u framework" where
  "Framework = \<lparr>fw_topology = None, fw_SBU = [], fw_alpha0 = None\<rparr>"

definition set_topology :: "'u framework \<Rightarrow> atoms \<Rightarrow> 'u framework" where
  "set_topology fw t = fw\<lparr>fw_topology := Some t\<rparr>"

definition append :: "'u framework \<Rightarrow> nat \<Rightarrow> 'u \<Rightarrow> mmtypes \<Rightarrow> bonds \<Rightarrow> 'u framework" where
  "append fw index u mm b = fw\<lparr>fw_SBU := AList.update index (u, mm, b) (fw_SBU fw)\<rparr>"

definition refine :: "'u framework \<Rightarrow> scale \<Rightarrow> 'u framework" where
  "refine fw alpha0 = fw\<lparr>fw_alpha0 := Some alpha0\<rparr>"

text \<open>\<^verbatim>\<open>random.choice(seq)\<close> raises \<^verbatim>\<open>IndexError\<close> on an empty sequence.\<close>

definition random_choice :: "nat \<Rightarrow> 'a list \<Rightarrow> pyerror + 'a" where
  "random_choice r seq = (if seq = [] then Inl IndexError else Inr (seq ! (r mod length seq)))"

text \<open>The inner loop of \<^verbatim>\<open>get_sbu_dict\<close>: one \<^verbatim>\<open>SBU\<close> object per name, in the order of
  the names; \<^verbatim>\<open>self.sbu[name]\<close> raises \<^verbatim>\<open>KeyError\<close> for an unknown name.  The list
  \<^verbatim>\<open>by_shape[shape]\<close> holds the objects of that shape in this order, and is empty for
  a shape that no object has (\<^verbatim>\<open>by_shape\<close> is a \<^verbatim>\<open>defaultdict(list)\<close>).\<close>

fun sbu_objects :: "env \<Rightarrow> autografs \<Rightarrow> string list \<Rightarrow> pyerror + sbu_obj list" where
  "sbu_objects E self [] = Inr []"
| "sbu_objects E self (name # names) =
     (case self_sbu self name of
        None \<Rightarrow> Inl KeyError
      | Some a \<Rightarrow>
          (case sbu_objects E self names of
             Inl e \<Rightarrow> Inl e
           | Inr r \<Rightarrow> Inr (SBU E name a # r)))"

text \<open>The outer loop of \<^verbatim>\<open>get_sbu_dict\<close> over \<^verbatim>\<open>topology.shapes.items()\<close>; \<open>k\<close> counts
  the draws.  \<^verbatim>\<open>sbu_names\<close> defaults to \<^verbatim>\<open>None\<close> in \<^verbatim>\<open>make\<close>, and iterating over
  \<^verbatim>\<open>None\<close> raises \<^verbatim>\<open>TypeError\<close>.\<close>

fun get_sbu_dict_loop ::
  "env \<Rightarrow> autografs \<Rightarrow> string list option \<Rightarrow> (nat \<times> shape) list \<Rightarrow> nat
     \<Rightarrow> (nat \<times> sbu_obj) list \<Rightarrow> pyerror + (nat \<times> sbu_obj) list" where
  "get_sbu_dict_loop E self sbu_names [] k sbu_dict = Inr sbu_dict"
| "get_sbu_dict_loop E self sbu_names ((index, shape) # rest) k sbu_dict =
     (case sbu_names of
        None \<Rightarrow> Inl TypeError
      | Some names \<Rightarrow>
          (case sbu_objects E self names of
             Inl e \<Rightarrow> Inl e
           | Inr objs \<Rightarrow>
               (case random_choice (rand E k) (filter (\<lambda>s. sbu_shape s = shape) objs) of
                  Inl e \<Rightarrow> Inl e
                | Inr chosen \<Rightarrow>
                    get_sbu_dict_loop E self sbu_names rest (Suc k)
                      (AList.update index chosen sbu_dict))))"

definition get_sbu_dict ::
  "env \<Rightarrow> autografs \<Rightarrow> topology \<Rightarrow> string list option \<Rightarrow> pyerror + (nat \<times> sbu_obj) list" where
  "get_sbu_dict E self topology sbu_names =
     get_sbu_dict_loop E self sbu_names (shapes topology) 0 []"

text \<open>\<^verbatim>\<open>alpha += f\<close>: \<^verbatim>\<open>alpha\<close> starts as the Python float \<open>0.0\<close>, and adding an array of
  shape (3,) to it broadcasts the float; from then on \<^verbatim>\<open>alpha\<close> is an array.\<close>

fun add_scale :: "scale \<Rightarrow> vec3 \<Rightarrow> scale" where
  "add_scale (Scalar a) f = Vector (vadd (a, a, a) f)"
| "add_scale (Vector v) f = Vector (vadd v f)"

text \<open>The metadata passed to \<^verbatim>\<open>append\<close>: taken from \<^verbatim>\<open>info\<close> when both keys are
  present, computed by \<^verbatim>\<open>analyze_mm\<close> otherwise.\<close>

definition sbu_metadata :: "env \<Rightarrow> atoms \<Rightarrow> bonds \<times> mmtypes" where
  "sbu_metadata E a =
     (case (info_bonds a, info_mmtypes a) of
        (Some b, Some t) \<Rightarrow> (b, t)
      | _ \<Rightarrow> analyze_mm E a)"

text \<open>The loop of \<^verbatim>\<open>make\<close> over \<^verbatim>\<open>sbu_dict.items()\<close>, with the container
  \<^verbatim>\<open>aligned\<close> and the accumulator \<^verbatim>\<open>alpha\<close> as loop state.\<close>

fun make_loop ::
  "env \<Rightarrow> topology \<Rightarrow> (nat \<times> sbu_obj) list \<Rightarrow> atoms framework \<Rightarrow> scale
     \<Rightarrow> pyerror + (atoms framework \<times> scale)" where
  "make_loop E topology [] aligned alpha = Inr (aligned, alpha)"
| "make_loop E topology ((idx, s) # rest) aligned alpha =
     (case fragments topology idx of
        None \<Rightarrow> Inl KeyError
      | Some fragment_atoms \<Rightarrow>
          (case sbu_metadata E (sbu_atoms s) of
             (sbu_bonds, sbu_types) \<Rightarrow>
               (case align (lapack_svd E) fragment_atoms (sbu_atoms s) of
                  Inl e \<Rightarrow> Inl e
                | Inr (sbu_atoms', f) \<Rightarrow>
                    make_loop E topology rest
                      (append aligned idx sbu_atoms' sbu_types sbu_bonds)
                      (add_scale alpha f))))"

text \<open>The slot assignment that \<^verbatim>\<open>make\<close> works with: the dictionary passed by the
  caller, or the one built by \<^verbatim>\<open>get_sbu_dict\<close>.\<close>

definition slot_assignment ::
  "env \<Rightarrow> autografs \<Rightarrow> topology \<Rightarrow> string list option \<Rightarrow> (nat \<times> sbu_obj) list option
     \<Rightarrow> pyerror + (nat \<times> sbu_obj) list" where
  "slot_assignment E self topology sbu_names sbu_dict =
     (case sbu_dict of
        None \<Rightarrow> get_sbu_dict E self topology sbu_names
      | Some d \<Rightarrow> Inr d)"

definition make ::
  "env \<Rightarrow> autografs \<Rightarrow> string \<Rightarrow> string list option \<Rightarrow> (nat \<times> sbu_obj) list option
     \<Rightarrow> pyerror + atoms framework" where
  "make E self topology_name sbu_names sbu_dict =
     (case self_topologies self topology_name of
        None \<Rightarrow> Inl KeyError
      | Some t \<Rightarrow>
          (let topology = Topology E topology_name t;
               aligned = set_topology Framework (topology_atoms topology);
               alpha = Scalar (Fin 0)
           in case slot_assignment E self topology sbu_names sbu_dict of
                Inl e \<Rightarrow> Inl e
              | Inr d \<Rightarrow>
                  (case make_loop E topology d aligned alpha of
                     Inl e \<Rightarrow> Inl e
                   | Inr (aligned', alpha') \<Rightarrow> Inr (refine aligned' alpha'))))"

section \<open>Objects and aliasing: the aligner on a store\<close>

text \<open>
  Python passes objects by reference, and \<^verbatim>\<open>align\<close> updates \<^verbatim>\<open>ase.Atoms\<close> objects
  in place.  To see which objects are written, the same statements are modelled once
  more on a store: a list of objects, an object's address being its index.  A copy and
  a subscript with a list of indices allocate a new object at the end of the store;
  \<^verbatim>\<open>positions -= c\<close>, \<^verbatim>\<open>positions = ...\<close> and \<^verbatim>\<open>atom.tag = ...\<close> overwrite the object
  at the address they are applied to.  When a statement raises, the store is the one
  reached so far.
\<close>

type_synonym addr = nat
type_synonym store = "atoms list"

definition new_object :: "store \<Rightarrow> atoms \<Rightarrow> addr \<times> store" where
  "new_object h a = (length h, h @ [a])"

definition copy :: "store \<Rightarrow> addr \<Rightarrow> addr \<times> store" where
  "copy h a = new_object h (h ! a)"

definition align_store ::
  "svd_fn \<Rightarrow> store \<Rightarrow> addr \<Rightarrow> addr \<Rightarrow> (pyerror + (addr \<times> vec3)) \<times> store" where
  "align_store svd h0 fragment0 sbu0 =
     (case copy h0 sbu0 of (sbu, h1) \<Rightarrow>
      case copy h1 fragment0 of (fragment, h2) \<Rightarrow>
      (let fragment_cop = mean_axis0 (positions (h2 ! fragment));
           h3 = h2[fragment := map_positions (\<lambda>p. vsub p fragment_cop) (h2 ! fragment)];
           sbu_cop = mean_axis0 (positions (h3 ! sbu));
           h4 = h3[sbu := map_positions (\<lambda>p. vsub p sbu_cop) (h3 ! sbu)];
           sbu_Xis = filter (\<lambda>i. symbol (atom_list (h4 ! sbu) ! i) = ''X'')
                       [0 ..< length (atom_list (h4 ! sbu))]
       in case new_object h4 (getitem (h4 ! sbu) sbu_Xis) of (sbu_X, h5) \<Rightarrow>
          (case scaling_factor fragment_cop (h5 ! sbu_X) (h5 ! fragment) of
             Inl e \<Rightarrow> (Inl e, h5)
           | Inr alpha \<Rightarrow>
               (let h6 = h5[fragment :=
                            map_positions (\<lambda>p. vecmat p (eye_times alpha)) (h5 ! fragment)];
                    X0 = positions (h6 ! sbu_X);
                    X1 = positions (h6 ! fragment)
                in case orthogonal_procrustes svd X0 X1 of
                     Inl e \<Rightarrow> (Inl e, h6)
                   | Inr (R, s) \<Rightarrow>
                       (let h7 = h6[sbu := map_positions (\<lambda>p. vecmat p R) (h6 ! sbu)]
                        in case tag (h7 ! sbu) (h7 ! fragment) of
                             Inl e \<Rightarrow> (Inl e, h7)
                           | Inr tagged \<Rightarrow> (Inr (sbu, alpha), h7[sbu := tagged]))))))"

text \<open>The loop of \<^verbatim>\<open>make\<close> on the store: the topology's fragments and the units of
  the slot assignment are addresses, and so are the aligned units kept by the
  container.\<close>

fun make_loop_store ::
  "env \<Rightarrow> (nat \<rightharpoonup> addr) \<Rightarrow> (nat \<times> addr) list \<Rightarrow> store \<Rightarrow> addr framework \<Rightarrow> scale
     \<Rightarrow> (pyerror + (addr framework \<times> scale)) \<times> store" where
  "make_loop_store E frags [] h aligned alpha = (Inr (aligned, alpha), h)"
| "make_loop_store E frags ((idx, s) # rest) h aligned alpha =
     (case frags idx of
        None \<Rightarrow> (Inl KeyError, h)
      | Some fragment_atoms \<Rightarrow>
          (case sbu_metadata E (h ! s) of
             (sbu_bonds, sbu_types) \<Rightarrow>
               (case align_store (lapack_svd E) h fragment_atoms s of
                  (Inl e, h') \<Rightarrow> (Inl e, h')
                | (Inr (sbu_atoms', f), h') \<Rightarrow>
                    make_loop_store E frags rest h'
                      (append aligned idx sbu_atoms' sbu_types sbu_bonds)
                      (add_scale alpha f))))"

section \<open>Notions used to state the properties\<close>

text \<open>The connection points of a unit: its atoms with the symbol \<^verbatim>\<open>"X"\<close>.\<close>

definition dummies :: "atoms \<Rightarrow> atom list" where
  "dummies a = filter (\<lambda>x. symbol x = ''X'') (atom_list a)"

text \<open>Points with real coordinates, and the objects all of whose coordinates are
  finite.\<close>

type_synonym rvec = "real \<times> real \<times> real"

fun fin3 :: "rvec \<Rightarrow> vec3" where
  "fin3 (x, y, z) = (Fin x, Fin y, Fin z)"

fun the_fin :: "npf \<Rightarrow> real" where
  "the_fin (Fin x) = x"
| "the_fin y = 0"





fun rnorm :: "rvec \<Rightarrow> real" where
  "rnorm (x, y, z) = sqrt (x * x + y * y + z * z)"











text \<open>An entry of the container comes from a slot of the assignment: it has the slot's
  index, its unit is the one \<^verbatim>\<open>align\<close> returned for the slot's fragment and the
  slot's building unit, and the unit has the symbols of the building unit, in the same
  order.\<close>

definition aligned_from :: "env \<Rightarrow> topology \<Rightarrow> nat \<times> sbu_obj \<Rightarrow> nat \<times> atoms \<times> mmtypes \<times> bonds \<Rightarrow> bool" where
  "aligned_from E topology slot entry =
     (fst entry = fst slot
      \<and> map symbol (atom_list (fst (snd entry))) = map symbol (atom_list (sbu_atoms (snd slot)))
      \<and> (case fragments topology (fst slot) of
            None \<Rightarrow> False
          | Some fragment \<Rightarrow>
              (case align (lapack_svd E) fragment (sbu_atoms (snd slot)) of
                 Inl e \<Rightarrow> False
               | Inr (a, f) \<Rightarrow> a = fst (snd entry))))"

text \<open>Real (3,3) matrices, as rows: product, transpose, identity and determinant.\<close>

type_synonym rmat = "rvec \<times> rvec \<times> rvec"

fun rvecmat :: "rvec \<Rightarrow> rmat \<Rightarrow> rvec" where
  "rvecmat (x, y, z) ((a, b, c), (d, e, f), (g, h, i)) =
     (x * a + y * d + z * g, x * b + y * e + z * h, x * c + y * f + z * i)"

fun rmatmul :: "rmat \<Rightarrow> rmat \<Rightarrow> rmat" where
  "rmatmul (r1, r2, r3) m = (rvecmat r1 m, rvecmat r2 m, rvecmat r3 m)"

fun rtranspose :: "rmat \<Rightarrow> rmat" where
  "rtranspose ((a, b, c), (d, e, f), (g, h, i)) = ((a, d, g), (b, e, h), (c, f, i))"

definition rid :: rmat where
  "rid = ((1, 0, 0), (0, 1, 0), (0, 0, 1))"

fun rdet :: "rmat \<Rightarrow> real" where
  "rdet ((a, b, c), (d, e, f), (g, h, i)) =
     a * (e * i - f * h) - b * (d * i - f * g) + c * (d * h - e * g)"

definition orthogonal :: "rmat \<Rightarrow> bool" where
  "orthogonal Q = (rmatmul Q (rtranspose Q) = rid)"

fun fin_mat :: "rmat \<Rightarrow> mat3" where
  "fin_mat (r1, r2, r3) = (fin3 r1, fin3 r2, fin3 r3)"

fun rvec_of :: "vec3 \<Rightarrow> rvec" where
  "rvec_of (x, y, z) = (the_fin x, the_fin y, the_fin z)"

fun rmat_of :: "mat3 \<Rightarrow> rmat" where
  "rmat_of (r1, r2, r3) = (rvec_of r1, rvec_of r2, rvec_of r3)"

fun finite_mat :: "mat3 \<Rightarrow> bool" where
  "finite_mat (r1, r2, r3) = (finite_vec r1 \<and> finite_vec r2 \<and> finite_vec r3)"

fun rdiag :: "rvec \<Rightarrow> rmat" where
  "rdiag (a, b, c) = ((a, 0, 0), (0, b, 0), (0, 0, c))"

text \<open>
  What LAPACK's decomposition promises for a finite matrix \<open>M\<close>: finite factors
  \<open>u\<close>, \<open>w\<close>, \<open>vt\<close> with \<open>u\<close> and \<open>vt\<close> orthogonal, \<open>w\<close> non-negative, and
  \<open>M = u diag(w) vt\<close>.  \<open>orthogonal_factors\<close> is the part of it about \<open>u\<close> and
  \<open>vt\<close> alone.
\<close>

definition orthogonal_factors :: "mat3 \<times> vec3 \<times> mat3 \<Rightarrow> bool" where
  "orthogonal_factors r =
     (case r of (u, w, vt) \<Rightarrow>
        finite_mat u \<and> finite_mat vt \<and> orthogonal (rmat_of u) \<and> orthogonal (rmat_of vt))"

definition is_svd :: "mat3 \<Rightarrow> mat3 \<times> vec3 \<times> mat3 \<Rightarrow> bool" where
  "is_svd M r =
     (case r of (u, w, vt) \<Rightarrow>
        orthogonal_factors r \<and> finite_vec w
        \<and> 0 \<le> the_fin (vx w) \<and> 0 \<le> the_fin (vy w) \<and> 0 \<le> the_fin (vz w)
        \<and> rmat_of M = rmatmul (rmatmul (rmat_of u) (rdiag (rvec_of w))) (rmat_of vt))"


text \<open>The values that a norm, or a quotient of two norms, can take (none is negative),
  and the two of them that are not finite.\<close>

fun nonneg :: "npf \<Rightarrow> bool" where
  "nonneg (Fin x) = (0 \<le> x)"
| "nonneg PInf = True"
| "nonneg NaN = True"
| "nonneg NInf = False"


section \<open>Example inputs\<close>

definition mk_atom :: "string \<Rightarrow> real \<Rightarrow> real \<Rightarrow> real \<Rightarrow> int \<Rightarrow> atom" where
  "mk_atom s x y z t = \<lparr>symbol = s, position = (Fin x, Fin y, Fin z), atom_tag = t\<rparr>"

definition mk_atoms :: "atom list \<Rightarrow> atoms" where
  "mk_atoms xs = \<lparr>atom_list = xs, info_mmtypes = None, info_bonds = None\<rparr>"

definition eye3 :: mat3 where
  "eye3 = ((Fin 1, Fin 0, Fin 0), (Fin 0, Fin 1, Fin 0), (Fin 0, Fin 0, Fin 1))"

text \<open>Two linear slots, centred at \<open>(3,0,0)\<close> and at \<open>(0,3,0)\<close>, and a linear unit
  along the third axis, as in the specification's end-to-end scenario, with a
  decomposition of the two matrices that \<^verbatim>\<open>align\<close> passes to the solver for these
  pairs.\<close>

definition ex_fragment :: atoms where
  "ex_fragment = mk_atoms [mk_atom ''X'' 4 0 0 1, mk_atom ''X'' 2 0 0 2]"

definition ex_unit :: atoms where
  "ex_unit = mk_atoms [mk_atom ''X'' 0 0 2 0, mk_atom ''C'' 0 0 0 0, mk_atom ''X'' 0 0 (- 2) 0]"

definition ex_fragment_y :: atoms where
  "ex_fragment_y = mk_atoms [mk_atom ''X'' 0 4 0 1, mk_atom ''X'' 0 2 0 2]"

definition ex_matrix_y :: mat3 where
  "ex_matrix_y = ((Fin 0, Fin 0, Fin 0), (Fin 0, Fin 0, Fin 0), (Fin 0, Fin 16, Fin 0))"

definition ex_svd :: svd_fn where
  "ex_svd M = (((Fin 0, Fin 0, Fin 1), (Fin 0, Fin 1, Fin 0), (Fin 1, Fin 0, Fin 0)),
               (Fin 16, Fin 0, Fin 0),
               (if M = ex_matrix_y then ((Fin 0, Fin 1, Fin 0), (Fin 1, Fin 0, Fin 0), (Fin 0, Fin 0, Fin 1))
                else eye3))"


definition ex_scaled_fragment :: atoms where
  "ex_scaled_fragment = mk_atoms [mk_atom ''X'' 4 0 0 1, mk_atom ''X'' (- 4) 0 0 2]"

definition ex_tagged_unit :: atoms where
  "ex_tagged_unit = mk_atoms [mk_atom ''X'' 2 0 0 1, mk_atom ''C'' 0 0 0 0, mk_atom ''X'' (- 2) 0 0 2]"

text \<open>A database with one linear unit and two topologies: one with the two linear
  slots above, one with a single triangular slot.  The slot assignment for the first, in
  both orders, and the container that \<^verbatim>\<open>make\<close> returns for it.\<close>

definition ex_topology :: "string \<Rightarrow> atoms \<Rightarrow> topology" where
  "ex_topology name a =
     \<lparr>topology_atoms = a,
      fragments = [0 \<mapsto> ex_fragment, 1 \<mapsto> ex_fragment_y],
      shapes = (if name = ''tri'' then [(0, ''triangular'')]
                else [(0, ''linear''), (1, ''linear'')])\<rparr>"

definition ex_SBU :: "string \<Rightarrow> atoms \<Rightarrow> sbu_obj" where
  "ex_SBU name a = \<lparr>sbu_name = name, sbu_atoms = a, sbu_shape = ''linear''\<rparr>"

definition ex_env :: env where
  "ex_env = \<lparr>lapack_svd = ex_svd, Topology = ex_topology, SBU = ex_SBU,
             analyze_mm = (\<lambda>a. ([], [])), rand = (\<lambda>k. 0)\<rparr>"

definition ex_self :: autografs where
  "ex_self = \<lparr>self_topologies = [''pcu'' \<mapsto> mk_atoms [], ''tri'' \<mapsto> mk_atoms []],
              self_sbu = [''Benzene_linear'' \<mapsto> ex_unit]\<rparr>"

definition ex_tagged_unit_y :: atoms where
  "ex_tagged_unit_y = mk_atoms [mk_atom ''X'' 0 2 0 1, mk_atom ''C'' 0 0 0 0, mk_atom ''X'' 0 (- 2) 0 2]"

definition ex_framework :: "atoms framework" where
  "ex_framework =
     \<lparr>fw_topology = Some (mk_atoms []),
      fw_SBU = [(0, ex_tagged_unit, [], []), (1, ex_tagged_unit_y, [], [])],
      fw_alpha0 = Some (Vector (Fin 4, Fin 4, Fin 0))\<rparr>"

definition ex_dict :: "(nat \<times> sbu_obj) list" where
  "ex_dict = [(0, ex_SBU ''Benzene_linear'' ex_unit), (1, ex_SBU ''Benzene_linear'' ex_unit)]"


text \<open>A store holding the first slot's fragment at address 0 and the unit at
  address 1.\<close>

definition ex_store :: store where
  "ex_store = [ex_fragment, ex_unit]"

text \<open>A fragment without points and a unit without connection points; the matrix
  passed to the solver is zero, and so are its singular values.\<close>

definition ex_empty_fragment :: atoms where
  "ex_empty_fragment = mk_atoms []"

definition ex_unit_no_dummy :: atoms where
  "ex_unit_no_dummy = mk_atoms [mk_atom ''C'' 1 2 3 0]"

definition svd_zero :: svd_fn where
  "svd_zero M = (eye3, (Fin 0, Fin 0, Fin 0), eye3)"

text \<open>A fragment with a single point, which is its own centroid.\<close>

definition ex_point_fragment :: atoms where
  "ex_point_fragment = mk_atoms [mk_atom ''X'' 3 0 0 1]"

definition ex_unit_one_dummy :: atoms where
  "ex_unit_one_dummy = mk_atoms [mk_atom ''X'' 0 0 2 0, mk_atom ''C'' 0 0 (- 2) 0]"

text \<open>An octahedral slot centred at \<open>(6,3,2)\<close> and an octahedral unit whose last two
  connection points are listed in the opposite order.\<close>

definition ex_octa_fragment :: atoms where
  "ex_octa_fragment = mk_atoms
     [mk_atom ''X'' 11 3 2 1, mk_atom ''X'' 1 3 2 2,
      mk_atom ''X'' 6 13 2 3, mk_atom ''X'' 6 (- 7) 2 4,
      mk_atom ''X'' 6 3 8 5, mk_atom ''X'' 6 3 (- 4) 6]"

definition ex_octa_unit :: atoms where
  "ex_octa_unit = mk_atoms
     [mk_atom ''X'' 3 0 0 0, mk_atom ''X'' (- 3) 0 0 0,
      mk_atom ''X'' 0 3 0 0, mk_atom ''X'' 0 (- 3) 0 0,
      mk_atom ''X'' 0 0 (- 3) 0, mk_atom ''X'' 0 0 3 0,
      mk_atom ''Zn'' 0 0 0 0]"

definition ex_octa_matrix :: mat3 where
  "ex_octa_matrix =
     ((Fin 24, Fin 0, Fin 0), (Fin 0, Fin 24, Fin 0), (Fin 0, Fin 0, Fin (- (48 / 5))))"

text \<open>A decomposition that factors \<open>ex_octa_matrix\<close> as \<open>u diag(w) vt\<close> with
  non-negative \<open>w\<close>, and answers with the identity factors on every other matrix.\<close>

definition ex_octa_svd :: svd_fn where
  "ex_octa_svd M =
     (if M = ex_octa_matrix
      then (((Fin 1, Fin 0, Fin 0), (Fin 0, Fin 1, Fin 0), (Fin 0, Fin 0, Fin (- 1))),
            (Fin 24, Fin 24, Fin (48 / 5)), eye3)
      else (eye3, (Fin 0, Fin 0, Fin 0), eye3))"

text \<open>The objects that \<^verbatim>\<open>align\<close> goes through on the octahedral example: the centred
  fragment, the connection points of the (already centred) unit, the scaled fragment, the
  matrix returned by \<^verbatim>\<open>orthogonal_procrustes\<close>, and the unit after the multiplication by
  it, before and after the tagging.\<close>

definition ex_octa_centred :: atoms where
  "ex_octa_centred = mk_atoms
     [mk_atom ''X'' 5 0 0 1, mk_atom ''X'' (- 5) 0 0 2,
      mk_atom ''X'' 0 10 0 3, mk_atom ''X'' 0 (- 10) 0 4,
      mk_atom ''X'' 0 0 6 5, mk_atom ''X'' 0 0 (- 6) 6]"

definition ex_octa_dummies :: atoms where
  "ex_octa_dummies = mk_atoms
     [mk_atom ''X'' 3 0 0 0, mk_atom ''X'' (- 3) 0 0 0,
      mk_atom ''X'' 0 3 0 0, mk_atom ''X'' 0 (- 3) 0 0,
      mk_atom ''X'' 0 0 (- 3) 0, mk_atom ''X'' 0 0 3 0]"

definition ex_octa_scaled :: atoms where
  "ex_octa_scaled = mk_atoms
     [mk_atom ''X'' 4 0 0 1, mk_atom ''X'' (- 4) 0 0 2,
      mk_atom ''X'' 0 4 0 3, mk_atom ''X'' 0 (- 4) 0 4,
      mk_atom ''X'' 0 0 (8 / 5) 5, mk_atom ''X'' 0 0 (- (8 / 5)) 6]"

definition ex_octa_reflection :: mat3 where
  "ex_octa_reflection =
     ((Fin 1, Fin 0, Fin 0), (Fin 0, Fin 1, Fin 0), (Fin 0, Fin 0, Fin (- 1)))"

definition ex_octa_reflected :: atoms where
  "ex_octa_reflected = mk_atoms
     [mk_atom ''X'' 3 0 0 0, mk_atom ''X'' (- 3) 0 0 0,
      mk_atom ''X'' 0 3 0 0, mk_atom ''X'' 0 (- 3) 0 0,
      mk_atom ''X'' 0 0 3 0, mk_atom ''X'' 0 0 (- 3) 0,
      mk_atom ''Zn'' 0 0 0 0]"

definition ex_octa_tagged :: atoms where
  "ex_octa_tagged = mk_atoms
     [mk_atom ''X'' 3 0 0 1, mk_atom ''X'' (- 3) 0 0 2,
      mk_atom ''X'' 0 3 0 3, mk_atom ''X'' 0 (- 3) 0 4,
      mk_atom ''X'' 0 0 3 5, mk_atom ''X'' 0 0 (- 3) 6,
      mk_atom ''Zn'' 0 0 0 0]"

section \<open>Properties\<close>

text \<open>
  Claim C10.  For every topology name (and whatever the two databases hold),
  \<^verbatim>\<open>list_available_sbu\<close> raises on its first line: the local variable
  \<^verbatim>\<open>shapes\<close> is read before any assignment, which is an
  \<^verbatim>\<open>UnboundLocalError\<close>, a \<^verbatim>\<open>NameError\<close>.  So the function returns no dictionary
  for any input.
\<close>

theorem C10_list_available_sbu_raises:
  "list_available_sbu shapes_item shape_item sbu_keys topology
     = Inl (UnboundLocalError ''shapes'')
   \<and> is_NameError (UnboundLocalError ''shapes'')"
  by (simp add: list_available_sbu_def)

subsection \<open>Atoms objects\<close>

lemma positions_map_positions: "positions (map_positions f a) = map f (positions a)"
  by (simp add: positions_def map_positions_def comp_def)

lemma symbols_map_positions:
  "map symbol (atom_list (map_positions f a)) = map symbol (atom_list a)"
  by (simp add: map_positions_def comp_def)

lemma length_map_positions: "length (atom_list (map_positions f a)) = length (atom_list a)"
  by (simp add: map_positions_def)

lemma nth_filter_indices:
  "map (\<lambda>i. xs ! i) (filter (\<lambda>i. P (xs ! i)) [0 ..< length xs]) = filter P xs"
proof -
  have "filter P (map (\<lambda>i. xs ! i) [0 ..< length xs])
          = map (\<lambda>i. xs ! i) (filter (P \<circ> (\<lambda>i. xs ! i)) [0 ..< length xs])"
    by (rule filter_map)
  then show ?thesis by (simp add: map_nth comp_def)
qed

lemma getitem_dummies:
  "atom_list (getitem a (filter (\<lambda>i. symbol (atom_list a ! i) = ''X'') [0 ..< length (atom_list a)]))
     = dummies a"
  using nth_filter_indices[of "atom_list a" "\<lambda>x. symbol x = ''X''"]
  by (simp add: getitem_def dummies_def)

lemma symbols_dummies:
  "map symbol (dummies a) = filter (\<lambda>s. s = ''X'') (map symbol (atom_list a))"
  by (simp add: dummies_def filter_map comp_def)

lemma length_dummies_map_positions:
  "length (dummies (map_positions f a)) = length (dummies a)"
proof -
  have "map symbol (dummies (map_positions f a)) = map symbol (dummies a)"
    by (simp only: symbols_dummies symbols_map_positions)
  then show ?thesis by (metis length_map)
qed

text \<open>Unfolding the example inputs and the array operations on them.\<close>

lemmas ex_defs = mk_atom_def mk_atoms_def eye3_def ex_fragment_def ex_unit_def ex_svd_def
  ex_fragment_y_def ex_matrix_y_def
  svd_zero_def ex_empty_fragment_def ex_unit_no_dummy_def ex_point_fragment_def
  ex_unit_one_dummy_def ex_octa_fragment_def ex_octa_unit_def ex_octa_svd_def ex_octa_matrix_def

lemmas np_defs = positions_def map_positions_def getitem_def np_divide_def np_argmin_def
  finite_vec_def col_dot_def dot_T_def orthogonal_procrustes_def tag_def scaling_factor_def
  np_mean_def fsum_def mean_axis0_def ones3_def fsub_def signed_inf_def

subsection \<open>Failures of the aligner on mismatched cardinalities\<close>

lemma scaling_factor_error:
  "scaling_factor c x f = Inl e \<Longrightarrow> e = ValueError_broadcast"
  by (auto simp: scaling_factor_def np_divide_def Let_def split: if_splits sum.splits)

lemma procrustes_mismatch:
  "length A \<noteq> length B \<Longrightarrow>
     orthogonal_procrustes svd A B = Inl ValueError_nonfinite
   \<or> orthogonal_procrustes svd A B = Inl ValueError_shapes"
  by (simp add: orthogonal_procrustes_def)

lemma align_mismatch:
  assumes "length (dummies sbu) \<noteq> length (atom_list fragment)"
  shows "\<exists>e. align_full svd fragment sbu = Inl e \<and> is_ValueError e"
proof -
  let ?cop = "mean_axis0 (positions fragment)"
  let ?f = "map_positions (\<lambda>p. vsub p ?cop) fragment"
  let ?s = "map_positions (\<lambda>p. vsub p (mean_axis0 (positions sbu))) sbu"
  let ?X = "getitem ?s (filter (\<lambda>i. symbol (atom_list ?s ! i) = ''X'') [0 ..< length (atom_list ?s)])"
  show ?thesis
  proof (cases "scaling_factor ?cop ?X ?f")
    case (Inl e)
    then have "e = ValueError_broadcast" by (rule scaling_factor_error)
    with Inl show ?thesis by (simp add: align_full_def Let_def)
  next
    case (Inr alpha)
    let ?f' = "map_positions (\<lambda>p. vecmat p (eye_times alpha)) ?f"
    have "length (positions ?X) = length (dummies sbu)"
      by (simp add: positions_def getitem_dummies length_dummies_map_positions)
    moreover have "length (positions ?f') = length (atom_list fragment)"
      by (simp add: positions_def length_map_positions)
    ultimately have "length (positions ?X) \<noteq> length (positions ?f')"
      using assms by simp
    from procrustes_mismatch[OF this, of svd] Inr show ?thesis
      by (auto simp: align_full_def Let_def)
  qed
qed

text \<open>
  Claim C2.  The fragment of a slot has at least one point.  For such a fragment,
  \<^verbatim>\<open>align\<close> fails whenever the unit has no connection point, and whenever the number
  of its connection points differs from the number of points of the fragment, and returns
  no aligned unit.  The module defines no error class of its own: the exception is a
  \<^verbatim>\<open>ValueError\<close>, raised by NumPy when the two arrays of sizes do not broadcast, or by
  SciPy when it is handed arrays of different shapes or with non-finite entries.
\<close>

theorem C2_align_cardinality_mismatch:
  assumes "atom_list fragment \<noteq> []"
    and "dummies sbu = [] \<or> length (dummies sbu) \<noteq> length (atom_list fragment)"
  shows "\<exists>e. align svd fragment sbu = Inl e \<and> is_ValueError e"
proof -
  from assms have "length (dummies sbu) \<noteq> length (atom_list fragment)" by auto
  from align_mismatch[OF this, of svd] show ?thesis
    by (auto simp: align_def)
qed

theorem C2_witness:
  "atom_list ex_fragment \<noteq> [] \<and> dummies ex_unit_no_dummy = []
   \<and> (\<exists>e. align svd_zero ex_fragment ex_unit_no_dummy = Inl e \<and> is_ValueError e)"
proof -
  have h: "atom_list ex_fragment \<noteq> []" "dummies ex_unit_no_dummy = []"
    by (simp_all add: dummies_def ex_defs)
  then show ?thesis
    using C2_align_cardinality_mismatch[of ex_fragment ex_unit_no_dummy svd_zero] by blast
qed

subsection \<open>Division by zero in the scale computation\<close>


lemma nonneg_fadd: "nonneg x \<Longrightarrow> nonneg y \<Longrightarrow> nonneg (fadd x y)"
  by (cases x; cases y) simp_all







lemma foldl_nonneg:
  "nonneg a \<Longrightarrow> list_all nonneg xs \<Longrightarrow> nonneg (foldl fadd a xs)"
  by (induction xs arbitrary: a) (simp_all add: nonneg_fadd)




















subsection \<open>The scale vector\<close>

lemma finite_vec_fin3: "finite_vec v \<Longrightarrow> v = fin3 (rvec_of v)"
  by (cases v; cases "vx v"; cases "vy v"; cases "vz v") (simp_all add: finite_vec_def)











lemma rnorm_nonneg: "0 \<le> rnorm v"
  by (cases v) simp















lemma upt3: "[0..<3] = [0, 1, 2]"
  by (simp add: upt_rec)

lemma ex_align_full:
  "align_full ex_svd ex_fragment ex_unit =
     Inr (mk_atoms [mk_atom ''X'' 2 0 0 1, mk_atom ''C'' 0 0 0 0, mk_atom ''X'' (- 2) 0 0 2],
          (Fin 4, Fin 0, Fin 0),
          ((Fin 0, Fin 0, Fin 1), (Fin 0, Fin 1, Fin 0), (Fin 1, Fin 0, Fin 0)))"
  by (simp add: align_full_def ex_defs np_defs Let_def upt3)



lemma align_Inr:
  "align svd fragment sbu = Inr (s, alpha) \<Longrightarrow> \<exists>R. align_full svd fragment sbu = Inr (s, alpha, R)"
  by (auto simp: align_def split: sum.splits)



subsection \<open>Tagging: the scan of argmin and the loop over the atoms\<close>







lemma np_argmin_total: "ds \<noteq> [] \<Longrightarrow> \<exists>k. np_argmin ds = Inr k"
  by (cases ds) (simp_all add: np_argmin_def)

lemma tag_atoms_total:
  assumes "atom_list fragment \<noteq> []"
  shows "\<exists>r. tag_atoms xs fragment = Inr r"
proof (induction xs)
  case Nil
  then show ?case by simp
next
  case (Cons a rest)
  then obtain r where r: "tag_atoms rest fragment = Inr r" ..
  from assms have "map (\<lambda>p. norm3 (vsub p (position a))) (positions fragment) \<noteq> []"
    by (simp add: positions_def)
  then have "\<exists>k. np_argmin (map (\<lambda>p. norm3 (vsub p (position a))) (positions fragment)) = Inr k"
    by (rule np_argmin_total)
  then obtain k where "np_argmin (map (\<lambda>p. norm3 (vsub p (position a))) (positions fragment)) = Inr k" ..
  with r show ?case by (simp add: Let_def)
qed




subsection \<open>The assembly loop\<close>

subsection \<open>Addition of floating-point values\<close>



lemma fadd_zero_left: "fadd (Fin 0) x = x"
  by (cases x) simp_all





subsection \<open>The accumulator of the loop\<close>









lemma ex_align_x:
  "align ex_svd ex_fragment ex_unit = Inr (ex_tagged_unit, (Fin 4, Fin 0, Fin 0))"
  by (simp add: align_def align_full_def ex_tagged_unit_def ex_defs np_defs Let_def upt3)

lemma ex_align_y:
  "align ex_svd ex_fragment_y ex_unit = Inr (ex_tagged_unit_y, (Fin 0, Fin 4, Fin 0))"
  by (simp add: align_def align_full_def ex_tagged_unit_y_def ex_defs np_defs Let_def upt3)

lemma ex_assignment:
  "get_sbu_dict ex_env ex_self (ex_topology ''pcu'' (mk_atoms [])) (Some [''Benzene_linear''])
     = Inr [(0, ex_SBU ''Benzene_linear'' ex_unit), (1, ex_SBU ''Benzene_linear'' ex_unit)]"
  by (simp add: get_sbu_dict_def ex_topology_def ex_env_def ex_self_def random_choice_def ex_SBU_def)

lemma ex_metadata: "sbu_metadata ex_env ex_unit = ([], [])"
  by (simp add: sbu_metadata_def ex_env_def ex_unit_def mk_atoms_def)

lemma ex_make:
  "make ex_env ex_self ''pcu'' (Some [''Benzene_linear'']) None = Inr ex_framework"
proof -
  have t: "Topology ex_env = ex_topology" "lapack_svd ex_env = ex_svd"
    by (simp_all add: ex_env_def)
  have s: "self_topologies ex_self ''pcu'' = Some (mk_atoms [])"
    by (simp add: ex_self_def)
  have f: "fragments (ex_topology ''pcu'' (mk_atoms [])) 0 = Some ex_fragment"
          "fragments (ex_topology ''pcu'' (mk_atoms [])) (Suc 0) = Some ex_fragment_y"
          "topology_atoms (ex_topology ''pcu'' (mk_atoms [])) = mk_atoms []"
    by (simp_all add: ex_topology_def)
  show ?thesis
    by (simp add: make_def slot_assignment_def Let_def t s ex_assignment f ex_SBU_def
        ex_metadata ex_align_x ex_align_y ex_framework_def Framework_def set_topology_def
        append_def refine_def)
qed




lemma tag_atoms_symbols:
  "tag_atoms xs fragment = Inr r \<Longrightarrow> map symbol r = map symbol xs"
  by (induction xs arbitrary: r) (auto simp: Let_def split: if_splits sum.splits)

lemma tag_symbols:
  "tag sbu fragment = Inr sbu' \<Longrightarrow> map symbol (atom_list sbu') = map symbol (atom_list sbu)"
  by (auto simp: tag_def dest: tag_atoms_symbols split: sum.splits)

lemma align_full_tag:
  "align_full svd fragment sbu = Inr (a, alpha, R) \<Longrightarrow>
     tag (map_positions (\<lambda>p. vecmat p R)
            (map_positions (\<lambda>p. vsub p (mean_axis0 (positions sbu))) sbu))
         (map_positions (\<lambda>p. vecmat p (eye_times alpha))
            (map_positions (\<lambda>p. vsub p (mean_axis0 (positions fragment))) fragment))
       = Inr a"
  by (auto simp: align_full_def Let_def split: sum.splits)

lemma align_symbols:
  assumes "align svd fragment sbu = Inr (a, f)"
  shows "map symbol (atom_list a) = map symbol (atom_list sbu)"
proof -
  from assms obtain R where "align_full svd fragment sbu = Inr (a, f, R)"
    by (auto dest: align_Inr)
  from tag_symbols[OF align_full_tag[OF this]] show ?thesis
    by (simp add: symbols_map_positions)
qed

lemma update_fresh:
  "k \<notin> fst ` set al \<Longrightarrow> AList.update k v al = al @ [(k, v)]"
  by (induction al) auto

lemma make_loop_entries:
  "make_loop E topology d aligned alpha = Inr (fw, alpha') \<Longrightarrow> distinct (map fst d)
     \<Longrightarrow> fst ` set (fw_SBU aligned) \<inter> fst ` set d = {}
     \<Longrightarrow> \<exists>es. fw_SBU fw = fw_SBU aligned @ es \<and> list_all2 (aligned_from E topology) d es
              \<and> fw_topology fw = fw_topology aligned"
proof (induction d arbitrary: aligned alpha)
  case Nil
  then show ?case by simp
next
  case (Cons slot rest)
  obtain idx s where slot: "slot = (idx, s)" by (cases slot)
  from Cons.prems(1) slot obtain frag b t a f where
    frag: "fragments topology idx = Some frag" and
    al: "align (lapack_svd E) frag (sbu_atoms s) = Inr (a, f)" and
    rest: "make_loop E topology rest (append aligned idx a t b) (add_scale alpha f) = Inr (fw, alpha')"
    by (auto split: option.splits sum.splits prod.splits)
  from Cons.prems(3) slot have fresh: "idx \<notin> fst ` set (fw_SBU aligned)" by auto
  then have ap: "fw_SBU (append aligned idx a t b) = fw_SBU aligned @ [(idx, a, t, b)]"
    by (simp add: append_def update_fresh)
  from Cons.prems(2,3) slot have "distinct (map fst rest)"
    and "fst ` set (fw_SBU (append aligned idx a t b)) \<inter> fst ` set rest = {}"
    by (auto simp: ap)
  from Cons.IH[OF rest this] obtain es where
    es: "fw_SBU fw = fw_SBU (append aligned idx a t b) @ es"
        "list_all2 (aligned_from E topology) rest es"
        "fw_topology fw = fw_topology (append aligned idx a t b)"
    by blast
  have "aligned_from E topology slot (idx, a, t, b)"
    by (simp add: aligned_from_def slot frag al align_symbols[OF al])
  with es ap show ?case
    by (intro exI[of _ "(idx, a, t, b) # es"]) (simp add: append_def)
qed

text \<open>
  Claim C7.  When \<^verbatim>\<open>make\<close> succeeds on a slot assignment, a dictionary and so with
  distinct slot indices, the container it returns holds exactly one entry for each slot
  of the assignment, under the slot's index and in the assignment's order, and the unit
  of each entry is the one \<^verbatim>\<open>align\<close> returned for that slot, with the symbols of the
  slot's building unit in the same order (so with as many atoms).
\<close>

theorem C7_assembly_complete:
  assumes "self_topologies self name = Some t"
    and "slot_assignment E self (Topology E name t) sbu_names sbu_dict = Inr d"
    and "distinct (map fst d)"
    and "make E self name sbu_names sbu_dict = Inr fw"
  shows "list_all2 (aligned_from E (Topology E name t)) d (fw_SBU fw)
       \<and> map fst (fw_SBU fw) = map fst d"
proof -
  let ?topo = "Topology E name t"
  let ?a0 = "set_topology Framework (topology_atoms ?topo)"
  from assms(1,2,4) obtain a alpha where
    loop: "make_loop E ?topo d ?a0 (Scalar (Fin 0)) = Inr (a, alpha)" and fw: "fw = refine a alpha"
    by (auto simp: make_def Let_def split: sum.splits)
  have "fst ` set (fw_SBU ?a0) \<inter> fst ` set d = {}"
    by (simp add: set_topology_def Framework_def)
  from make_loop_entries[OF loop assms(3) this] obtain es where
    "fw_SBU a = es" "list_all2 (aligned_from E ?topo) d es"
    by (auto simp: set_topology_def Framework_def)
  then have l: "list_all2 (aligned_from E ?topo) d (fw_SBU fw)"
    by (simp add: fw refine_def)
  then have "map fst (fw_SBU fw) = map fst d"
    by (induction rule: list_all2_induct) (simp_all add: aligned_from_def)
  with l show ?thesis by simp
qed

theorem C7_witness:
  "self_topologies ex_self ''pcu'' = Some (mk_atoms [])
   \<and> slot_assignment ex_env ex_self (Topology ex_env ''pcu'' (mk_atoms []))
        (Some [''Benzene_linear'']) None = Inr ex_dict
   \<and> distinct (map fst ex_dict)
   \<and> make ex_env ex_self ''pcu'' (Some [''Benzene_linear'']) None = Inr ex_framework
   \<and> list_all2 (aligned_from ex_env (Topology ex_env ''pcu'' (mk_atoms []))) ex_dict
        (fw_SBU ex_framework)
   \<and> map fst (fw_SBU ex_framework) = map fst ex_dict"
proof -
  have s: "self_topologies ex_self ''pcu'' = Some (mk_atoms [])"
    by (simp add: ex_self_def)
  have d: "slot_assignment ex_env ex_self (Topology ex_env ''pcu'' (mk_atoms []))
        (Some [''Benzene_linear'']) None = Inr ex_dict"
  proof -
    have "Topology ex_env = ex_topology" by (simp add: ex_env_def)
    then show ?thesis by (simp add: slot_assignment_def ex_dict_def ex_assignment)
  qed
  have k: "distinct (map fst ex_dict)"
    by (simp add: ex_dict_def)
  from C7_assembly_complete[OF s d k ex_make] s d k ex_make show ?thesis
    by simp
qed

subsection \<open>Unfillable slots\<close>

lemma sbu_objects_error: "sbu_objects E self names = Inl e \<Longrightarrow> e = KeyError"
  by (induction names) (auto split: option.splits sum.splits)

lemma sbu_objects_no_candidate:
  "sbu_objects E self names = Inr objs
     \<Longrightarrow> \<forall>n \<in> set names. \<forall>a. self_sbu self n = Some a \<longrightarrow> sbu_shape (SBU E n a) \<noteq> shape
     \<Longrightarrow> filter (\<lambda>s. sbu_shape s = shape) objs = []"
  by (induction names arbitrary: objs) (auto split: option.splits sum.splits)

lemma get_sbu_dict_loop_unfillable:
  assumes "\<forall>n \<in> set names. \<forall>a. self_sbu self n = Some a \<longrightarrow> sbu_shape (SBU E n a) \<noteq> shape"
  shows "(index, shape) \<in> set slots \<Longrightarrow>
           get_sbu_dict_loop E self (Some names) slots k d = Inl IndexError
         \<or> get_sbu_dict_loop E self (Some names) slots k d = Inl KeyError"
proof (induction slots arbitrary: k d)
  case Nil
  then show ?case by simp
next
  case (Cons slot rest)
  obtain i sh where slot: "slot = (i, sh)" by (cases slot)
  show ?case
  proof (cases "sbu_objects E self names")
    case (Inl e)
    then have "e = KeyError" by (rule sbu_objects_error)
    with Inl slot show ?thesis by simp
  next
    case (Inr objs)
    show ?thesis
    proof (cases "filter (\<lambda>s. sbu_shape s = sh) objs = []")
      case True
      with Inr slot show ?thesis by (simp add: random_choice_def)
    next
      case False
      with sbu_objects_no_candidate[OF Inr assms] have "sh \<noteq> shape" by auto
      with Cons.prems slot have "(index, shape) \<in> set rest" by auto
      from Cons.IH[OF this] Inr False slot show ?thesis
        by (simp add: random_choice_def)
    qed
  qed
qed

text \<open>
  Claim C5.  When the topology has a slot whose shape is the shape of no building unit
  of the supplied pool, \<^verbatim>\<open>get_sbu_dict\<close> raises and so does \<^verbatim>\<open>make\<close>, which
  returns no container at all.  The exception is the \<^verbatim>\<open>IndexError\<close> of
  \<^verbatim>\<open>random.choice\<close> on the empty list of candidates, or the \<^verbatim>\<open>KeyError\<close> of a name
  of the pool that the database does not know.
\<close>

theorem C5_unfillable_slot:
  assumes "self_topologies self name = Some t"
    and "(index, shape) \<in> set (shapes (Topology E name t))"
    and "\<forall>n \<in> set names. \<forall>a. self_sbu self n = Some a \<longrightarrow> sbu_shape (SBU E n a) \<noteq> shape"
  shows "(get_sbu_dict E self (Topology E name t) (Some names) = Inl IndexError
          \<or> get_sbu_dict E self (Topology E name t) (Some names) = Inl KeyError)
       \<and> (make E self name (Some names) None = Inl IndexError
          \<or> make E self name (Some names) None = Inl KeyError)"
proof -
  from get_sbu_dict_loop_unfillable[OF assms(3) assms(2), of 0 "[]"]
  have g: "get_sbu_dict E self (Topology E name t) (Some names) = Inl IndexError
          \<or> get_sbu_dict E self (Topology E name t) (Some names) = Inl KeyError"
    by (simp add: get_sbu_dict_def)
  then have "make E self name (Some names) None = Inl IndexError
          \<or> make E self name (Some names) None = Inl KeyError"
    using assms(1) by (auto simp: make_def slot_assignment_def Let_def)
  with g show ?thesis by simp
qed

theorem C5_witness:
  "self_topologies ex_self ''tri'' = Some (mk_atoms [])
   \<and> shapes (Topology ex_env ''tri'' (mk_atoms [])) = [(0, ''triangular'')]
   \<and> self_sbu ex_self ''Benzene_linear'' = Some ex_unit
   \<and> sbu_shape (SBU ex_env ''Benzene_linear'' ex_unit) = ''linear''
   \<and> get_sbu_dict ex_env ex_self (Topology ex_env ''tri'' (mk_atoms [])) (Some [''Benzene_linear''])
        = Inl IndexError
   \<and> make ex_env ex_self ''tri'' (Some [''Benzene_linear'']) None = Inl IndexError"
proof -
  have s: "self_topologies ex_self ''tri'' = Some (mk_atoms [])"
    by (simp add: ex_self_def)
  have h: "shapes (Topology ex_env ''tri'' (mk_atoms [])) = [(0, ''triangular'')]"
    by (simp add: ex_env_def ex_topology_def)
  then have i: "(0, ''triangular'') \<in> set (shapes (Topology ex_env ''tri'' (mk_atoms [])))"
    by simp
  have u: "self_sbu ex_self ''Benzene_linear'' = Some ex_unit"
    "sbu_shape (SBU ex_env ''Benzene_linear'' ex_unit) = ''linear''"
    by (simp_all add: ex_self_def ex_env_def ex_SBU_def)
  have n: "\<forall>n \<in> set [''Benzene_linear'']. \<forall>a. self_sbu ex_self n = Some a
             \<longrightarrow> sbu_shape (SBU ex_env n a) \<noteq> ''triangular''"
    by (simp add: ex_self_def ex_env_def ex_SBU_def)
  have k: "get_sbu_dict ex_env ex_self (Topology ex_env ''tri'' (mk_atoms [])) (Some [''Benzene_linear''])
             \<noteq> Inl KeyError"
    by (simp add: get_sbu_dict_def h) (simp add: ex_self_def ex_env_def ex_SBU_def random_choice_def)
  have k': "make ex_env ex_self ''tri'' (Some [''Benzene_linear'']) None \<noteq> Inl KeyError"
    by (simp add: make_def slot_assignment_def get_sbu_dict_def Let_def h s)
       (simp add: ex_self_def ex_env_def ex_SBU_def random_choice_def)
  from C5_unfillable_slot[OF s i n] k k' s h u show ?thesis by simp
qed

subsection \<open>Writes of the aligner\<close>

lemma align_store_frame: "take (length h) (snd (align_store svd h fragment sbu)) = h"
  by (simp add: align_store_def copy_def new_object_def Let_def split: sum.splits prod.splits)

lemma align_store_length: "length h \<le> length (snd (align_store svd h fragment sbu))"
  by (simp add: align_store_def copy_def new_object_def Let_def split: sum.splits prod.splits)

lemma align_store_fresh:
  "fst (align_store svd h fragment sbu) = Inr (a, f) \<Longrightarrow> a = length h"
  by (auto simp: align_store_def copy_def new_object_def Let_def split: sum.splits prod.splits)

lemma align_store_refines:
  assumes "fragment < length h" and "sbu < length h"
  shows "case align_store svd h fragment sbu of
           (Inl e, h') \<Rightarrow> align svd (h ! fragment) (h ! sbu) = Inl e
         | (Inr (a, alpha), h') \<Rightarrow> a < length h' \<and> align svd (h ! fragment) (h ! sbu) = Inr (h' ! a, alpha)"
  using assms
  by (auto simp: align_store_def align_def align_full_def copy_def new_object_def Let_def
      nth_append split: sum.splits prod.splits)

lemma make_loop_store_frame:
  "take (length h) (snd (make_loop_store E frags d h aligned alpha)) = h"
proof (induction d arbitrary: h aligned alpha)
  case Nil
  then show ?case by simp
next
  case (Cons slot rest)
  obtain idx s where slot: "slot = (idx, s)" by (cases slot)
  show ?case
  proof (cases "frags idx")
    case None
    with slot show ?thesis by simp
  next
    case (Some fr)
    obtain b t where m: "sbu_metadata E (h ! s) = (b, t)" by (cases "sbu_metadata E (h ! s)")
    obtain r h' where a: "align_store (lapack_svd E) h fr s = (r, h')"
      by (cases "align_store (lapack_svd E) h fr s")
    from align_store_frame[of h "lapack_svd E" fr s] align_store_length[of h "lapack_svd E" fr s] a
    have h': "take (length h) h' = h" "length h \<le> length h'" by simp_all
    show ?thesis
    proof (cases r)
      case (Inl e)
      with slot Some m a h' show ?thesis by simp
    next
      case (Inr p)
      obtain u f where p: "p = (u, f)" by (cases p)
      let ?res = "snd (make_loop_store E frags rest h' (append aligned idx u t b) (add_scale alpha f))"
      have "take (length h') ?res = h'" by (rule Cons.IH)
      then have "take (length h) (take (length h') ?res) = take (length h) h'" by simp
      with h' have "take (length h) ?res = h" by (simp add: min_absorb1)
      with slot Some m a Inr p show ?thesis by simp
    qed
  qed
qed

text \<open>
  Claim C9.  On the store, \<^verbatim>\<open>align\<close> and the loop of \<^verbatim>\<open>make\<close> leave every object
  that existed before the call as it was, whether they return or raise: the fragments of
  the topology and the atoms of the building units among them.  All writes go to the
  objects that \<^verbatim>\<open>align\<close> allocates (the two copies and the sub-object of the
  connection points), and the unit that \<^verbatim>\<open>align\<close> returns is such a new object.
  \<open>align_store_refines\<close> above says that what the store version returns is what
  \<open>align\<close> computes from the two objects passed.
\<close>

theorem C9_inputs_not_mutated:
  "take (length h) (snd (align_store svd h fragment sbu)) = h
   \<and> (case fst (align_store svd h fragment sbu) of Inl e \<Rightarrow> True | Inr (a, f) \<Rightarrow> a = length h)
   \<and> take (length h) (snd (make_loop_store E frags d h aligned alpha)) = h"
proof -
  have "case fst (align_store svd h fragment sbu) of Inl e \<Rightarrow> True | Inr (a, f) \<Rightarrow> a = length h"
    by (auto split: sum.splits dest: align_store_fresh)
  then show ?thesis
    by (simp add: align_store_frame make_loop_store_frame)
qed

lemma ex_align_store:
  "align_store ex_svd ex_store 0 1
     = (Inr (2, (Fin 4, Fin 0, Fin 0)),
        [ex_fragment, ex_unit, ex_tagged_unit, ex_scaled_fragment,
         mk_atoms [mk_atom ''X'' 0 0 2 0, mk_atom ''X'' 0 0 (- 2) 0]])"
  by (simp add: align_store_def copy_def new_object_def ex_store_def ex_tagged_unit_def
      ex_scaled_fragment_def ex_defs np_defs Let_def upt3)

theorem C9_witness:
  "align_store ex_svd ex_store 0 1
     = (Inr (2, (Fin 4, Fin 0, Fin 0)),
        [ex_fragment, ex_unit, ex_tagged_unit, ex_scaled_fragment,
         mk_atoms [mk_atom ''X'' 0 0 2 0, mk_atom ''X'' 0 0 (- 2) 0]])
   \<and> take (length ex_store) (snd (align_store ex_svd ex_store 0 1)) = ex_store
   \<and> take (length ex_store)
        (snd (make_loop_store ex_env [0 \<mapsto> 0] [(0, 1)] ex_store Framework (Scalar (Fin 0))))
      = ex_store"
proof -
  note c = C9_inputs_not_mutated[of ex_store ex_svd 0 1 ex_env "[0 \<mapsto> 0]" "[(0, 1)]"
      Framework "Scalar (Fin 0)"]
  from c have a: "take (length ex_store) (snd (align_store ex_svd ex_store 0 1)) = ex_store" ..
  from c have b: "take (length ex_store)
        (snd (make_loop_store ex_env [0 \<mapsto> 0] [(0, 1)] ex_store Framework (Scalar (Fin 0))))
      = ex_store" by (elim conjE)
  show ?thesis by (intro conjI) (rule ex_align_store, rule a, rule b)
qed

subsection \<open>The matrix applied by the aligner\<close>

lemma rmat_cases:
  obtains a b c d e f g h i where "A = ((a, b, c), (d, e, f), (g, h, i :: real))"
  by (cases A rule: prod_cases3; cases "fst A"; cases "fst (snd A)"; cases "snd (snd A)") auto

lemma rmatmul_assoc: "rmatmul (rmatmul A B) C = rmatmul A (rmatmul B C)"
  by (cases A rule: rmat_cases; cases B rule: rmat_cases; cases C rule: rmat_cases)
     (simp add: algebra_simps)

lemma rtranspose_rmatmul: "rtranspose (rmatmul A B) = rmatmul (rtranspose B) (rtranspose A)"
  by (cases A rule: rmat_cases; cases B rule: rmat_cases) (simp add: algebra_simps)

lemma rmatmul_rid_left: "rmatmul rid A = A"
  by (cases A rule: rmat_cases) (simp add: rid_def)

lemma rdet_rmatmul: "rdet (rmatmul A B) = rdet A * rdet B"
  by (cases A rule: rmat_cases; cases B rule: rmat_cases) (simp add: algebra_simps)

lemma rdet_rtranspose: "rdet (rtranspose A) = rdet A"
  by (cases A rule: rmat_cases) (simp add: algebra_simps)

lemma rdet_rid: "rdet rid = 1"
  by (simp add: rid_def)

lemma rdet_rdiag: "rdet (rdiag w) = fst w * fst (snd w) * snd (snd w)"
  by (cases w) simp

lemma orthogonal_rmatmul:
  assumes "orthogonal U" and "orthogonal V"
  shows "orthogonal (rmatmul U V)"
proof -
  have "rmatmul (rmatmul U V) (rtranspose (rmatmul U V))
          = rmatmul U (rmatmul (rmatmul V (rtranspose V)) (rtranspose U))"
    by (simp add: rtranspose_rmatmul rmatmul_assoc)
  also have "\<dots> = rid"
    using assms by (simp add: orthogonal_def rmatmul_rid_left)
  finally show ?thesis by (simp add: orthogonal_def)
qed

lemma orthogonal_rdet:
  assumes "orthogonal Q"
  shows "rdet Q = 1 \<or> rdet Q = - 1"
proof -
  have "rdet Q * rdet Q = rdet (rmatmul Q (rtranspose Q))"
    by (simp add: rdet_rmatmul rdet_rtranspose)
  also have "\<dots> = 1" using assms by (simp add: orthogonal_def rdet_rid)
  finally have "(rdet Q - 1) * (rdet Q + 1) = 0" by (simp add: algebra_simps)
  then show ?thesis by auto
qed

lemma finite_mat_rmat_of: "finite_mat m \<Longrightarrow> m = fin_mat (rmat_of m)"
  by (cases m rule: prod_cases3) (simp add: finite_vec_fin3[symmetric])

lemma vecmat_fin: "vecmat (fin3 p) (fin_mat A) = fin3 (rvecmat p A)"
  by (cases p; cases A rule: rmat_cases) simp

lemma matmul_fin: "matmul (fin_mat A) (fin_mat B) = fin_mat (rmatmul A B)"
  by (cases A rule: prod_cases3) (simp add: vecmat_fin)

lemma rvec_of_fin3: "rvec_of (fin3 p) = p"
  by (cases p) simp

lemma rmat_of_fin_mat: "rmat_of (fin_mat A) = A"
  by (cases A rule: prod_cases3) (simp add: rvec_of_fin3)

lemma fin3_finite_vec: "finite_vec (fin3 p)"
  by (cases p) (simp add: finite_vec_def)

lemma finite_mat_fin_mat: "finite_mat (fin_mat A)"
  by (cases A rule: prod_cases3) (simp add: fin3_finite_vec)

lemma orthogonal_factors_product:
  assumes "orthogonal_factors (u, w, vt)"
  shows "finite_mat (matmul u vt) \<and> orthogonal (rmat_of (matmul u vt))
       \<and> (rdet (rmat_of (matmul u vt)) = 1 \<or> rdet (rmat_of (matmul u vt)) = - 1)"
proof -
  from assms have u: "u = fin_mat (rmat_of u)" and v: "vt = fin_mat (rmat_of vt)"
    and o: "orthogonal (rmat_of u)" "orthogonal (rmat_of vt)"
    by (simp_all add: orthogonal_factors_def finite_mat_rmat_of[symmetric])
  have m: "matmul u vt = fin_mat (rmatmul (rmat_of u) (rmat_of vt))"
    by (subst u, subst v) (rule matmul_fin)
  have "orthogonal (rmatmul (rmat_of u) (rmat_of vt))"
    using o by (rule orthogonal_rmatmul)
  then show ?thesis
    by (simp add: m rmat_of_fin_mat finite_mat_fin_mat orthogonal_rdet)
qed

text \<open>The matrix handed to the decomposition is finite, because SciPy has checked both
  arrays before.\<close>

lemma is_finite_Fin: "is_finite x \<Longrightarrow> \<exists>r. x = Fin r"
  by (cases x) simp_all

lemma foldl_fadd_finite: "list_all is_finite xs \<Longrightarrow> is_finite (foldl fadd (Fin a) xs)"
  by (induction xs arbitrary: a) (auto dest!: is_finite_Fin)

lemma fsum_finite: "list_all is_finite xs \<Longrightarrow> is_finite (fsum xs)"
  by (simp add: fsum_def foldl_fadd_finite)

lemma fmul_finite: "is_finite x \<Longrightarrow> is_finite y \<Longrightarrow> is_finite (fmul x y)"
  by (cases x; cases y) simp_all

lemma col_dot_finite:
  assumes "list_all (\<lambda>b. is_finite (f b)) B" and "list_all (\<lambda>a. is_finite (g a)) A"
  shows "is_finite (col_dot f g B A)"
proof -
  have "is_finite (fmul (f (fst x)) (g (snd x)))" if "x \<in> set (zip B A)" for x
  proof -
    from that have "(fst x, snd x) \<in> set (zip B A)" by simp
    then have "fst x \<in> set B" and "snd x \<in> set A"
      by (rule set_zip_leftD, rule set_zip_rightD)
    with assms show ?thesis by (simp add: list_all_iff fmul_finite)
  qed
  then have "list_all is_finite (map (\<lambda>(b, a). fmul (f b) (g a)) (zip B A))"
    by (simp add: list_all_iff case_prod_beta)
  then show ?thesis unfolding col_dot_def by (rule fsum_finite)
qed

lemma dot_T_finite:
  assumes "list_all finite_vec B" and "list_all finite_vec A"
  shows "finite_mat (transpose3 (dot_T B A))"
proof -
  from assms(1) have B: "list_all (\<lambda>b. is_finite (vx b)) B" "list_all (\<lambda>b. is_finite (vy b)) B"
    "list_all (\<lambda>b. is_finite (vz b)) B"
    by (simp_all add: list_all_iff finite_vec_def)
  from assms(2) have A: "list_all (\<lambda>b. is_finite (vx b)) A" "list_all (\<lambda>b. is_finite (vy b)) A"
    "list_all (\<lambda>b. is_finite (vz b)) A"
    by (simp_all add: list_all_iff finite_vec_def)
  show ?thesis
    by (simp add: dot_T_def finite_vec_def col_dot_finite A B)
qed

lemma procrustes_orthogonal:
  assumes "\<And>M. finite_mat M \<Longrightarrow> orthogonal_factors (svd M)"
    and "orthogonal_procrustes svd A B = Inr (R, s)"
  shows "finite_mat R \<and> orthogonal (rmat_of R)
       \<and> (rdet (rmat_of R) = 1 \<or> rdet (rmat_of R) = - 1)"
proof -
  from assms(2) have fa: "list_all finite_vec A" and fb: "list_all finite_vec B"
    by (auto simp: orthogonal_procrustes_def split: if_splits)
  obtain u w vt where d: "svd (transpose3 (dot_T B A)) = (u, w, vt)"
    by (cases "svd (transpose3 (dot_T B A))") auto
  with assms(2) fa fb have R: "R = matmul u vt"
    by (auto simp: orthogonal_procrustes_def split: if_splits)
  from fb fa have "finite_mat (transpose3 (dot_T B A))" by (rule dot_T_finite)
  then have "orthogonal_factors (svd (transpose3 (dot_T B A)))" by (rule assms(1))
  then have "orthogonal_factors (u, w, vt)" by (simp add: d)
  then show ?thesis unfolding R by (rule orthogonal_factors_product)
qed

lemma align_full_procrustes:
  assumes "align_full svd fragment sbu = Inr (a, alpha, R)"
  shows "\<exists>A B s. orthogonal_procrustes svd A B = Inr (R, s)"
proof -
  define c where "c = map_positions (\<lambda>p. vsub p (mean_axis0 (positions sbu))) sbu"
  define A where "A = positions (getitem c
     (filter (\<lambda>i. symbol (atom_list c ! i) = ''X'') [0 ..< length (atom_list c)]))"
  define B where "B = positions (map_positions (\<lambda>p. vecmat p (eye_times alpha))
     (map_positions (\<lambda>p. vsub p (mean_axis0 (positions fragment))) fragment))"
  from assms have "\<exists>s. orthogonal_procrustes svd A B = Inr (R, s)"
    unfolding A_def B_def c_def
    by (auto simp: align_full_def Let_def split: sum.splits)
  then show ?thesis by blast
qed

lemma tag_atoms_positions:
  "tag_atoms xs fragment = Inr r \<Longrightarrow> map position r = map position xs"
  by (induction xs arbitrary: r) (auto simp: Let_def split: if_splits sum.splits)

lemma tag_positions:
  "tag sbu fragment = Inr sbu' \<Longrightarrow> positions sbu' = positions sbu"
  by (auto simp: tag_def positions_def dest: tag_atoms_positions split: sum.splits)

lemma align_full_positions:
  assumes "align_full svd fragment sbu = Inr (sbu', alpha, R)"
  shows "positions sbu' = map (\<lambda>p. vecmat (vsub p (mean_axis0 (positions sbu))) R) (positions sbu)"
proof -
  from align_full_tag[OF assms] have "positions sbu' =
      positions (map_positions (\<lambda>p. vecmat p R)
            (map_positions (\<lambda>p. vsub p (mean_axis0 (positions sbu))) sbu))"
    by (rule tag_positions)
  then show ?thesis by (simp add: positions_map_positions comp_def)
qed

text \<open>The permutation factors of \<open>ex_svd\<close> and the factors of \<open>ex_octa_svd\<close> are
  orthogonal on every matrix.\<close>

lemma ex_svd_orthogonal: "orthogonal_factors (ex_svd M)"
  by (simp add: orthogonal_factors_def orthogonal_def rid_def finite_vec_def ex_defs)

lemma ex_octa_svd_orthogonal: "orthogonal_factors (ex_octa_svd M)"
  by (simp add: orthogonal_factors_def orthogonal_def rid_def finite_vec_def ex_defs)

text \<open>The octahedral example, statement by statement of \<^verbatim>\<open>align\<close>.\<close>

lemma upt7: "[0..<7] = [0, 1, 2, 3, 4, 5, 6]"
  by (simp add: upt_rec)

lemma sqrt_eq: "0 \<le> r \<Longrightarrow> x = r * r \<Longrightarrow> sqrt x = r"
  by simp

lemma sqrt_fifths: "sqrt (289 / 25) = 17 / 5" "sqrt (49 / 25) = 7 / 5" "sqrt (529 / 25) = 23 / 5"
  by (rule sqrt_eq; simp)+

lemma octa_fragment_cop: "mean_axis0 (positions ex_octa_fragment) = (Fin 6, Fin 3, Fin 2)"
  by (simp add: ex_defs np_defs)

lemma octa_fragment_centred:
  "map_positions (\<lambda>p. vsub p (Fin 6, Fin 3, Fin 2)) ex_octa_fragment = ex_octa_centred"
  by (simp add: ex_defs np_defs ex_octa_centred_def)

lemma octa_unit_cop: "mean_axis0 (positions ex_octa_unit) = (Fin 0, Fin 0, Fin 0)"
  by (simp add: ex_defs np_defs)

lemma octa_unit_centred:
  "map_positions (\<lambda>p. vsub p (Fin 0, Fin 0, Fin 0)) ex_octa_unit = ex_octa_unit"
  by (simp add: ex_defs np_defs)

lemma octa_unit_Xis:
  "filter (\<lambda>i. symbol (atom_list ex_octa_unit ! i) = ''X'') [0 ..< length (atom_list ex_octa_unit)]
     = [0, 1, 2, 3, 4, 5]"
  by (simp add: ex_defs upt7)

lemma octa_unit_X: "getitem ex_octa_unit [0, 1, 2, 3, 4, 5] = ex_octa_dummies"
  by (simp add: ex_defs getitem_def ex_octa_dummies_def)

lemma octa_scale:
  "scaling_factor (Fin 6, Fin 3, Fin 2) ex_octa_dummies ex_octa_centred
     = Inr (Fin (4 / 5), Fin (2 / 5), Fin (4 / 15))"
  by (simp add: ex_defs np_defs Let_def ex_octa_dummies_def ex_octa_centred_def)

lemma octa_fragment_scaled:
  "map_positions (\<lambda>p. vecmat p (eye_times (Fin (4 / 5), Fin (2 / 5), Fin (4 / 15)))) ex_octa_centred
     = ex_octa_scaled"
  by (simp add: ex_defs np_defs ex_octa_centred_def ex_octa_scaled_def)

lemma octa_matrix:
  "transpose3 (dot_T (positions ex_octa_scaled) (positions ex_octa_dummies)) = ex_octa_matrix"
  by (simp add: ex_defs np_defs ex_octa_scaled_def ex_octa_dummies_def)

lemma octa_procrustes:
  "orthogonal_procrustes ex_octa_svd (positions ex_octa_dummies) (positions ex_octa_scaled)
     = Inr (ex_octa_reflection, Fin (288 / 5))"
  unfolding orthogonal_procrustes_def octa_matrix
  by (simp add: ex_defs positions_def finite_vec_def fsum_def ex_octa_scaled_def
      ex_octa_dummies_def ex_octa_reflection_def)

lemma octa_unit_reflected:
  "map_positions (\<lambda>p. vecmat p ex_octa_reflection) ex_octa_unit = ex_octa_reflected"
  by (simp add: ex_defs np_defs ex_octa_reflection_def ex_octa_reflected_def)

lemma tag_atoms_dummy:
  assumes "symbol a = ''X''"
    and "np_argmin (map (\<lambda>p. norm3 (vsub p (position a))) (positions fragment)) = Inr fi"
    and "atom_tag (atom_list fragment ! fi) = t"
    and "tag_atoms rest fragment = Inr r"
  shows "tag_atoms (a # rest) fragment = Inr (a\<lparr>atom_tag := t\<rparr> # r)"
  using assms by (simp add: Let_def)

lemma octa_argmin:
  "np_argmin (map (\<lambda>p. norm3 (vsub p (Fin 3, Fin 0, Fin 0))) (positions ex_octa_scaled)) = Inr 0"
  "np_argmin (map (\<lambda>p. norm3 (vsub p (Fin (- 3), Fin 0, Fin 0))) (positions ex_octa_scaled)) = Inr 1"
  "np_argmin (map (\<lambda>p. norm3 (vsub p (Fin 0, Fin 3, Fin 0))) (positions ex_octa_scaled)) = Inr 2"
  "np_argmin (map (\<lambda>p. norm3 (vsub p (Fin 0, Fin (- 3), Fin 0))) (positions ex_octa_scaled)) = Inr 3"
  "np_argmin (map (\<lambda>p. norm3 (vsub p (Fin 0, Fin 0, Fin 3))) (positions ex_octa_scaled)) = Inr 4"
  "np_argmin (map (\<lambda>p. norm3 (vsub p (Fin 0, Fin 0, Fin (- 3)))) (positions ex_octa_scaled)) = Inr 5"
  by (simp_all add: ex_defs positions_def fsub_def ex_octa_scaled_def sqrt_fifths np_argmin_def)

lemma octa_tags:
  "atom_tag (atom_list ex_octa_scaled ! 0) = 1" "atom_tag (atom_list ex_octa_scaled ! 1) = 2"
  "atom_tag (atom_list ex_octa_scaled ! 2) = 3" "atom_tag (atom_list ex_octa_scaled ! 3) = 4"
  "atom_tag (atom_list ex_octa_scaled ! 4) = 5" "atom_tag (atom_list ex_octa_scaled ! 5) = 6"
  by (simp_all add: ex_octa_scaled_def ex_defs)

lemma octa_tag_atoms:
  "tag_atoms (atom_list ex_octa_reflected) ex_octa_scaled = Inr (atom_list ex_octa_tagged)"
proof -
  have 7: "tag_atoms [mk_atom ''Zn'' 0 0 0 0] ex_octa_scaled = Inr [mk_atom ''Zn'' 0 0 0 0]"
    by (simp add: mk_atom_def)
  have 6: "tag_atoms [mk_atom ''X'' 0 0 (- 3) 0, mk_atom ''Zn'' 0 0 0 0] ex_octa_scaled
      = Inr [mk_atom ''X'' 0 0 (- 3) 6, mk_atom ''Zn'' 0 0 0 0]"
    using tag_atoms_dummy[OF _ _ octa_tags(6) 7, of "mk_atom ''X'' 0 0 (- 3) 0"]
    by (simp add: mk_atom_def octa_argmin)
  have 5: "tag_atoms (mk_atom ''X'' 0 0 3 0 # [mk_atom ''X'' 0 0 (- 3) 0, mk_atom ''Zn'' 0 0 0 0])
       ex_octa_scaled
      = Inr (mk_atom ''X'' 0 0 3 5 # [mk_atom ''X'' 0 0 (- 3) 6, mk_atom ''Zn'' 0 0 0 0])"
    using tag_atoms_dummy[OF _ _ octa_tags(5) 6, of "mk_atom ''X'' 0 0 3 0"]
    by (simp add: mk_atom_def octa_argmin)
  have 4: "tag_atoms (mk_atom ''X'' 0 (- 3) 0 0 #
         [mk_atom ''X'' 0 0 3 0, mk_atom ''X'' 0 0 (- 3) 0, mk_atom ''Zn'' 0 0 0 0])
       ex_octa_scaled
      = Inr (mk_atom ''X'' 0 (- 3) 0 4 #
         [mk_atom ''X'' 0 0 3 5, mk_atom ''X'' 0 0 (- 3) 6, mk_atom ''Zn'' 0 0 0 0])"
    using tag_atoms_dummy[OF _ _ octa_tags(4) 5, of "mk_atom ''X'' 0 (- 3) 0 0"]
    by (simp add: mk_atom_def octa_argmin)
  have 3: "tag_atoms (mk_atom ''X'' 0 3 0 0 # [mk_atom ''X'' 0 (- 3) 0 0,
         mk_atom ''X'' 0 0 3 0, mk_atom ''X'' 0 0 (- 3) 0, mk_atom ''Zn'' 0 0 0 0])
       ex_octa_scaled
      = Inr (mk_atom ''X'' 0 3 0 3 # [mk_atom ''X'' 0 (- 3) 0 4,
         mk_atom ''X'' 0 0 3 5, mk_atom ''X'' 0 0 (- 3) 6, mk_atom ''Zn'' 0 0 0 0])"
    using tag_atoms_dummy[OF _ _ octa_tags(3) 4, of "mk_atom ''X'' 0 3 0 0"]
    by (simp add: mk_atom_def octa_argmin)
  have 2: "tag_atoms (mk_atom ''X'' (- 3) 0 0 0 # [mk_atom ''X'' 0 3 0 0, mk_atom ''X'' 0 (- 3) 0 0,
         mk_atom ''X'' 0 0 3 0, mk_atom ''X'' 0 0 (- 3) 0, mk_atom ''Zn'' 0 0 0 0])
       ex_octa_scaled
      = Inr (mk_atom ''X'' (- 3) 0 0 2 # [mk_atom ''X'' 0 3 0 3, mk_atom ''X'' 0 (- 3) 0 4,
         mk_atom ''X'' 0 0 3 5, mk_atom ''X'' 0 0 (- 3) 6, mk_atom ''Zn'' 0 0 0 0])"
    using tag_atoms_dummy[OF _ _ octa_tags(2) 3, of "mk_atom ''X'' (- 3) 0 0 0"]
    by (simp add: mk_atom_def octa_argmin)
  have 1: "tag_atoms (mk_atom ''X'' 3 0 0 0 # [mk_atom ''X'' (- 3) 0 0 0, mk_atom ''X'' 0 3 0 0,
         mk_atom ''X'' 0 (- 3) 0 0,
         mk_atom ''X'' 0 0 3 0, mk_atom ''X'' 0 0 (- 3) 0, mk_atom ''Zn'' 0 0 0 0])
       ex_octa_scaled
      = Inr (mk_atom ''X'' 3 0 0 1 # [mk_atom ''X'' (- 3) 0 0 2, mk_atom ''X'' 0 3 0 3,
         mk_atom ''X'' 0 (- 3) 0 4,
         mk_atom ''X'' 0 0 3 5, mk_atom ''X'' 0 0 (- 3) 6, mk_atom ''Zn'' 0 0 0 0])"
    using tag_atoms_dummy[OF _ _ octa_tags(1) 2, of "mk_atom ''X'' 3 0 0 0"]
    by (simp add: mk_atom_def octa_argmin)
  have "atom_list ex_octa_reflected = [mk_atom ''X'' 3 0 0 0, mk_atom ''X'' (- 3) 0 0 0,
         mk_atom ''X'' 0 3 0 0, mk_atom ''X'' 0 (- 3) 0 0,
         mk_atom ''X'' 0 0 3 0, mk_atom ''X'' 0 0 (- 3) 0, mk_atom ''Zn'' 0 0 0 0]"
    and "atom_list ex_octa_tagged = [mk_atom ''X'' 3 0 0 1, mk_atom ''X'' (- 3) 0 0 2,
         mk_atom ''X'' 0 3 0 3, mk_atom ''X'' 0 (- 3) 0 4,
         mk_atom ''X'' 0 0 3 5, mk_atom ''X'' 0 0 (- 3) 6, mk_atom ''Zn'' 0 0 0 0]"
    by (simp_all add: ex_octa_reflected_def ex_octa_tagged_def mk_atoms_def)
  with 1 show ?thesis by simp
qed

lemma octa_tag: "tag ex_octa_reflected ex_octa_scaled = Inr ex_octa_tagged"
  by (simp add: tag_def octa_tag_atoms) (simp add: ex_octa_reflected_def ex_octa_tagged_def mk_atoms_def)

lemma octa_align_full:
  "align_full ex_octa_svd ex_octa_fragment ex_octa_unit
     = Inr (ex_octa_tagged, (Fin (4 / 5), Fin (2 / 5), Fin (4 / 15)), ex_octa_reflection)"
  by (simp only: align_full_def Let_def octa_fragment_cop octa_fragment_centred octa_unit_cop
      octa_unit_centred octa_unit_Xis octa_unit_X octa_scale sum.case octa_fragment_scaled
      octa_procrustes prod.case octa_unit_reflected octa_tag)

text \<open>No decomposition of \<open>ex_octa_matrix\<close> gives a proper rotation: its determinant
  is negative and the singular values are not.  So \<^verbatim>\<open>align\<close> applies a reflection to
  the octahedral unit whichever decomposition LAPACK picks.\<close>

lemma octa_every_svd_reflects:
  assumes "is_svd ex_octa_matrix (u, w, vt)"
  shows "rdet (rmat_of (matmul u vt)) = - 1"
proof -
  let ?U = "rmat_of u" and ?V = "rmat_of vt" and ?W = "rdiag (rvec_of w)"
  from assms have of: "orthogonal_factors (u, w, vt)"
    and nn: "0 \<le> the_fin (vx w)" "0 \<le> the_fin (vy w)" "0 \<le> the_fin (vz w)"
    and eq: "rmat_of ex_octa_matrix = rmatmul (rmatmul ?U ?W) ?V"
    by (simp_all add: is_svd_def)
  from of have u: "u = fin_mat ?U" and v: "vt = fin_mat ?V"
    and o: "orthogonal ?U" "orthogonal ?V"
    by (simp_all add: orthogonal_factors_def finite_mat_rmat_of[symmetric])
  have "matmul u vt = fin_mat (rmatmul ?U ?V)"
    by (subst u, subst v) (rule matmul_fin)
  then have d: "rdet (rmat_of (matmul u vt)) = rdet ?U * rdet ?V"
    by (simp add: rmat_of_fin_mat rdet_rmatmul)
  have "rdet (rmat_of ex_octa_matrix) < 0" by (simp add: ex_octa_matrix_def)
  with eq have neg: "rdet ?U * rdet ?W * rdet ?V < 0" by (simp add: rdet_rmatmul)
  have "0 \<le> rdet ?W" using nn by (cases w) simp
  moreover from neg have "(rdet ?U * rdet ?V) * rdet ?W < 0"
    by (simp add: mult.commute mult.left_commute)
  ultimately have "rdet ?U * rdet ?V < 0"
    by (auto simp: mult_less_0_iff)
  moreover from o have "rdet ?U = 1 \<or> rdet ?U = - 1" "rdet ?V = 1 \<or> rdet ?V = - 1"
    by (simp_all add: orthogonal_rdet)
  ultimately show ?thesis unfolding d by auto
qed

lemma octa_align_reflects:
  assumes "is_svd ex_octa_matrix (svd ex_octa_matrix)"
  shows "\<exists>sbu' R. align_full svd ex_octa_fragment ex_octa_unit
             = Inr (sbu', (Fin (4 / 5), Fin (2 / 5), Fin (4 / 15)), R)
           \<and> rdet (rmat_of R) = - 1"
proof -
  obtain u w vt where d: "svd ex_octa_matrix = (u, w, vt)"
    by (cases "svd ex_octa_matrix") auto
  have f: "list_all finite_vec (positions ex_octa_dummies)"
    "list_all finite_vec (positions ex_octa_scaled)"
    by (simp_all add: ex_defs positions_def finite_vec_def ex_octa_scaled_def ex_octa_dummies_def)
  have l: "length (positions ex_octa_dummies) = length (positions ex_octa_scaled)"
    by (simp add: ex_defs positions_def ex_octa_scaled_def ex_octa_dummies_def)
  have p: "orthogonal_procrustes svd (positions ex_octa_dummies) (positions ex_octa_scaled)
      = Inr (matmul u vt, fsum [vx w, vy w, vz w])"
    unfolding orthogonal_procrustes_def octa_matrix by (simp add: f l d)
  have "atom_list ex_octa_scaled \<noteq> []"
    by (simp add: ex_octa_scaled_def mk_atoms_def)
  then obtain r where
    "tag_atoms (atom_list (map_positions (\<lambda>p. vecmat p (matmul u vt)) ex_octa_unit)) ex_octa_scaled
       = Inr r"
    using tag_atoms_total by blast
  then have t: "tag (map_positions (\<lambda>p. vecmat p (matmul u vt)) ex_octa_unit) ex_octa_scaled
       = Inr ((map_positions (\<lambda>p. vecmat p (matmul u vt)) ex_octa_unit)\<lparr>atom_list := r\<rparr>)"
    by (simp add: tag_def)
  have "align_full svd ex_octa_fragment ex_octa_unit
     = Inr ((map_positions (\<lambda>p. vecmat p (matmul u vt)) ex_octa_unit)\<lparr>atom_list := r\<rparr>,
            (Fin (4 / 5), Fin (2 / 5), Fin (4 / 15)), matmul u vt)"
    by (simp only: align_full_def Let_def octa_fragment_cop octa_fragment_centred octa_unit_cop
        octa_unit_centred octa_unit_Xis octa_unit_X octa_scale sum.case octa_fragment_scaled
        p prod.case t)
  moreover from assms have "rdet (rmat_of (matmul u vt)) = - 1"
    unfolding d by (rule octa_every_svd_reflects)
  ultimately show ?thesis by blast
qed

text \<open>
  Claim C1, as amended.  Let the decomposition used by SciPy return finite orthogonal
  factors \<open>u\<close> and \<open>vt\<close> for every finite matrix, as LAPACK's does.  Whenever
  \<^verbatim>\<open>align\<close> returns for a fragment and a unit (which needs as many connection points
  as fragment points and a finite scale), the matrix \<open>R\<close> it has computed is finite and
  orthogonal, \<open>R R\<^sup>T\<close> is the identity, its determinant is \<open>1\<close> or \<open>-1\<close>, and
  every atom of the returned unit is at the position of the same atom of the given unit,
  translated by the unit's centre of positions and multiplied by that one \<open>R\<close>.  The
  determinant \<open>1\<close> alone does not hold: \<^verbatim>\<open>orthogonal_procrustes\<close> returns \<open>u vt\<close> as it is.
\<close>

theorem C1_rotation_orthogonal:
  assumes "\<forall>M. finite_mat M \<longrightarrow> orthogonal_factors (svd M)"
    and "align_full svd fragment sbu = Inr (sbu', alpha, R)"
  shows "finite_mat R \<and> orthogonal (rmat_of R)
       \<and> (rdet (rmat_of R) = 1 \<or> rdet (rmat_of R) = - 1)
       \<and> positions sbu' = map (\<lambda>p. vecmat (vsub p (mean_axis0 (positions sbu))) R) (positions sbu)"
proof -
  from align_full_procrustes[OF assms(2)] obtain A B s
    where p: "orthogonal_procrustes svd A B = Inr (R, s)" by blast
  have "orthogonal_factors (svd M)" if "finite_mat M" for M
    using assms(1) that by blast
  from procrustes_orthogonal[OF this p] align_full_positions[OF assms(2)]
  show ?thesis by simp
qed

text \<open>The theorem at the two-point fragment and the three-atom unit: the matrix is the
  permutation of the first and the third axis, of determinant \<open>-1\<close> as well.\<close>

theorem C1_witness:
  "(\<forall>M. orthogonal_factors (ex_svd M))
   \<and> align_full ex_svd ex_fragment ex_unit =
       Inr (mk_atoms [mk_atom ''X'' 2 0 0 1, mk_atom ''C'' 0 0 0 0, mk_atom ''X'' (- 2) 0 0 2],
            (Fin 4, Fin 0, Fin 0),
            ((Fin 0, Fin 0, Fin 1), (Fin 0, Fin 1, Fin 0), (Fin 1, Fin 0, Fin 0)))
   \<and> orthogonal (rmat_of ((Fin 0, Fin 0, Fin 1), (Fin 0, Fin 1, Fin 0), (Fin 1, Fin 0, Fin 0)))
   \<and> positions (mk_atoms [mk_atom ''X'' 2 0 0 1, mk_atom ''C'' 0 0 0 0, mk_atom ''X'' (- 2) 0 0 2])
       = map (\<lambda>p. vecmat (vsub p (mean_axis0 (positions ex_unit)))
                   ((Fin 0, Fin 0, Fin 1), (Fin 0, Fin 1, Fin 0), (Fin 1, Fin 0, Fin 0)))
           (positions ex_unit)"
proof -
  have h: "\<forall>M. finite_mat M \<longrightarrow> orthogonal_factors (ex_svd M)"
    by (simp add: ex_svd_orthogonal)
  from C1_rotation_orthogonal[OF h ex_align_full] ex_svd_orthogonal ex_align_full show ?thesis
    by blast
qed

text \<open>
  Against the claim as stated: the octahedral slot and unit have six points and six
  connection points, none at a centroid, all coordinates finite.  The matrix handed to
  the decomposition is \<open>ex_octa_matrix\<close>, \<open>ex_octa_svd\<close> decomposes it as the contract
  of a singular value decomposition demands, \<^verbatim>\<open>align\<close> returns, and the matrix it
  applied to the unit is the reflection of the third axis, of determinant \<open>-1\<close>.
\<close>

theorem C1_counterexample:
  "length (dummies ex_octa_unit) = 6 \<and> length (atom_list ex_octa_fragment) = 6
   \<and> is_svd ex_octa_matrix (ex_octa_svd ex_octa_matrix)
   \<and> align_full ex_octa_svd ex_octa_fragment ex_octa_unit
       = Inr (ex_octa_tagged, (Fin (4 / 5), Fin (2 / 5), Fin (4 / 15)), ex_octa_reflection)
   \<and> orthogonal (rmat_of ex_octa_reflection)
   \<and> rdet (rmat_of ex_octa_reflection) = - 1"
proof -
  have "length (dummies ex_octa_unit) = 6"
    by (simp add: dummies_def ex_defs)
  moreover have "length (atom_list ex_octa_fragment) = 6"
    by (simp add: ex_defs)
  moreover have "is_svd ex_octa_matrix (ex_octa_svd ex_octa_matrix)"
    by (simp add: is_svd_def orthogonal_factors_def orthogonal_def rid_def finite_vec_def ex_defs)
  moreover have "orthogonal (rmat_of ex_octa_reflection)"
    by (simp add: orthogonal_def rid_def ex_octa_reflection_def)
  moreover have "rdet (rmat_of ex_octa_reflection) = - 1"
    by (simp add: ex_octa_reflection_def)
  ultimately show ?thesis using octa_align_full by simp
qed

end
